theory Spec2Isabelle
  imports Complex_Main
begin

section \<open>Python values\<close>

text \<open>
  The adapters of \<^verbatim>\<open>archon/models\<close> exchange dictionaries, lists, strings and
  numbers with their callers, with the HTTP backend and with the vendor SDK. One datatype
  holds them all. A dictionary is an association list in insertion order; floats are
  carried as reals, since the adapters pass them on and never compute with them.
\<close>

datatype json =
    JNull
  | JBool bool
  | JInt int
  | JFloat real
  | JStr string
  | JList "json list"
  | JObj "(string \<times> json) list"

text \<open>\<^verbatim>\<open>str(e)\<close> of a raised exception; a computation that may raise is \<open>exn + 'a\<close>.\<close>

type_synonym exn = string

text \<open>Python's truth value of an object, as \<^verbatim>\<open>if x:\<close> tests it.\<close>

fun truthy :: "json \<Rightarrow> bool" where
  "truthy JNull = False"
| "truthy (JBool b) = b"
| "truthy (JInt i) = (i \<noteq> 0)"
| "truthy (JFloat r) = (r \<noteq> 0)"
| "truthy (JStr s) = (s \<noteq> [])"
| "truthy (JList xs) = (xs \<noteq> [])"
| "truthy (JObj kvs) = (kvs \<noteq> [])"

fun type_name :: "json \<Rightarrow> string" where
  "type_name JNull = ''NoneType''"
| "type_name (JBool b) = ''bool''"
| "type_name (JInt i) = ''int''"
| "type_name (JFloat r) = ''float''"
| "type_name (JStr s) = ''str''"
| "type_name (JList xs) = ''list''"
| "type_name (JObj kvs) = ''dict''"

definition apos :: string where
  "apos = [CHR 0x27]"

definition quoted :: "string \<Rightarrow> string" where
  "quoted s = apos @ s @ apos"

text \<open>
  \<^verbatim>\<open>v.get(k, d)\<close>: on a dictionary the value under \<open>k\<close>, or \<open>d\<close>; any other
  object has no \<^verbatim>\<open>get\<close> and the call raises AttributeError.
\<close>

definition dict_get :: "json \<Rightarrow> string \<Rightarrow> json \<Rightarrow> exn + json" where
  "dict_get v k d =
     (case v of
        JObj kvs \<Rightarrow> Inr (case map_of kvs k of Some x \<Rightarrow> x | None \<Rightarrow> d)
      | _ \<Rightarrow> Inl (quoted (type_name v) @ '' object has no attribute '' @ quoted ''get''))"

text \<open>\<^verbatim>\<open>d[k] = v\<close>: replaces the value of an existing key, appends a new key.\<close>

fun dict_set :: "(string \<times> json) list \<Rightarrow> string \<Rightarrow> json \<Rightarrow> (string \<times> json) list" where
  "dict_set [] k v = [(k, v)]"
| "dict_set ((k', v') # kvs) k v =
     (if k' = k then (k, v) # kvs else (k', v') # dict_set kvs k v)"

text \<open>Reading a field of an emitted dictionary (\<open>None\<close>: no such key, or not a dictionary).\<close>

definition field :: "json \<Rightarrow> string \<Rightarrow> json option" where
  "field v k = (case v of JObj kvs \<Rightarrow> map_of kvs k | _ \<Rightarrow> None)"

definition keys :: "json \<Rightarrow> string list" where
  "keys v = (case v of JObj kvs \<Rightarrow> map fst kvs | _ \<Rightarrow> [])"

text \<open>\<^verbatim>\<open>kwargs.get(k, d)\<close> on the keyword arguments of a call.\<close>

definition kwargs_get :: "(string \<rightharpoonup> json) \<Rightarrow> string \<Rightarrow> json \<Rightarrow> json" where
  "kwargs_get kwargs k d = (case kwargs k of Some v \<Rightarrow> v | None \<Rightarrow> d)"

section \<open>Exceptions and generators\<close>

definition bind_exn :: "exn + 'a \<Rightarrow> ('a \<Rightarrow> exn + 'b) \<Rightarrow> exn + 'b" where
  "bind_exn m f = (case m of Inl e \<Rightarrow> Inl e | Inr v \<Rightarrow> f v)"

text \<open>\<^verbatim>\<open>try: ... except Exception as e: ...\<close> around a body that returns a value.\<close>

definition try_except :: "exn + 'a \<Rightarrow> (exn \<Rightarrow> 'a) \<Rightarrow> 'a" where
  "try_except m h = (case m of Inl e \<Rightarrow> h e | Inr v \<Rightarrow> v)"

text \<open>
  A generator body that has run to its end: the values it yielded, in order, and the
  exception that ended it, if one did. \<^verbatim>\<open>try: ... except Exception as e: yield h(e)\<close>
  around such a body keeps what was yielded and adds the handler's value.
\<close>

type_synonym 'a gen = "'a list \<times> exn option"

definition gen_try :: "'a gen \<Rightarrow> (exn \<Rightarrow> 'a) \<Rightarrow> 'a list" where
  "gen_try g h = (case snd g of None \<Rightarrow> fst g | Some e \<Rightarrow> fst g @ [h e])"

section \<open>Results and chunks\<close>

text \<open>
  The token estimator \<^verbatim>\<open>len(self.tokenizer.encode(text))\<close> belongs to the tiktoken
  library. It is a parameter \<open>tok\<close> of the model: a total function from text to a count,
  as the contract of the estimator states. Applied to an object that is not a string,
  the call raises TypeError.
\<close>

definition encode_len :: "(string \<Rightarrow> nat) \<Rightarrow> json \<Rightarrow> exn + nat" where
  "encode_len tok v =
     (case v of JStr s \<Rightarrow> Inr (tok s) | _ \<Rightarrow> Inl ''expected string or buffer'')"

definition prompt_tokens :: "(string \<Rightarrow> nat) \<Rightarrow> string \<Rightarrow> string option \<Rightarrow> nat" where
  "prompt_tokens tok prompt system_prompt =
     (case system_prompt of
        None \<Rightarrow> tok prompt
      | Some s \<Rightarrow> if s \<noteq> [] then tok prompt + tok s else tok prompt)"

definition usage :: "nat \<Rightarrow> nat \<Rightarrow> (string \<times> json) list" where
  "usage p c =
     [(''prompt_tokens'', JInt (int p)),
      (''completion_tokens'', JInt (int c)),
      (''total_tokens'', JInt (int p + int c))]"

definition result :: "json \<Rightarrow> string \<Rightarrow> json \<Rightarrow> (string \<times> json) list \<Rightarrow> json" where
  "result text model_name finish_reason usage_rec =
     JObj [(''text'', text), (''model'', JStr model_name),
           (''finish_reason'', finish_reason), (''usage'', JObj usage_rec)]"

text \<open>The handler of the outer \<^verbatim>\<open>try\<close> of all four paths.\<close>

definition error_result :: "string \<Rightarrow> exn \<Rightarrow> json" where
  "error_result model_name e =
     result (JStr (''Error generating content: '' @ e)) model_name (JStr ''error'') []"

text \<open>The handler of the per-chunk \<^verbatim>\<open>try\<close> of both streaming loops.\<close>

definition chunk_error :: "string \<Rightarrow> json" where
  "chunk_error model_name = result (JStr '''') model_name (JStr ''error'') []"

section \<open>The Gemini adapter\<close>

text \<open>
  The request handed to \<^verbatim>\<open>generate_content_async\<close>: the content parts, the
  generation config, the \<^verbatim>\<open>stream\<close> flag and the safety settings.
\<close>

record generation_config =
  temperature :: real
  max_output_tokens :: "int option"
  stop_sequences :: "string list option"
  top_p :: json
  top_k :: json

record gemini_request =
  parts :: "json list"
  config :: generation_config
  streamed :: bool
  safety_settings :: json

text \<open>
  A chunk of the SDK's stream, as the loop reads it: \<^verbatim>\<open>chunk.text\<close> is a string,
  or the chunk has no such attribute, or reading the attribute raises (the SDK does so for
  a chunk without a text part, for instance a blocked candidate), and then
  \<^verbatim>\<open>hasattr\<close> lets the exception through.
\<close>

datatype native_chunk = ChunkText string | ChunkNoText | ChunkRaises exn

text \<open>
  What the SDK returns: \<^verbatim>\<open>response.text\<close> for the single-shot call, and for the
  streaming call the chunks the iteration delivers, followed by the exception that ends the
  iteration, if the transport fails before the stream is exhausted.
\<close>

record gemini_response =
  response_text :: "exn + string"
  response_chunks :: "native_chunk list"
  response_failure :: "exn option"

record gemini_model =
  gm_model_name :: string
  gm_model :: "gemini_request \<Rightarrow> exn + gemini_response"
  gm_tokenizer :: "string \<Rightarrow> nat"

definition gemini_config ::
  "real \<Rightarrow> int option \<Rightarrow> string list option \<Rightarrow> (string \<rightharpoonup> json) \<Rightarrow> generation_config" where
  "gemini_config temp max_tokens stops kwargs =
     \<lparr> temperature = temp,
       max_output_tokens =
         (case max_tokens of None \<Rightarrow> None | Some n \<Rightarrow> if n \<noteq> 0 then Some n else None),
       stop_sequences =
         (case stops of None \<Rightarrow> None | Some ss \<Rightarrow> if ss \<noteq> [] then Some ss else None),
       top_p = kwargs_get kwargs ''top_p'' (JFloat (95 / 100)),
       top_k = kwargs_get kwargs ''top_k'' (JInt 40) \<rparr>"

definition gemini_parts :: "string \<Rightarrow> string option \<Rightarrow> json list" where
  "gemini_parts prompt system_prompt =
     (case system_prompt of
        None \<Rightarrow> []
      | Some s \<Rightarrow>
          if s \<noteq> [] then [JObj [(''role'', JStr ''system''), (''parts'', JList [JStr s])]]
          else [])
     @ [JObj [(''role'', JStr ''user''), (''parts'', JList [JStr prompt])]]"

definition gemini_request_of ::
  "string \<Rightarrow> string option \<Rightarrow> real \<Rightarrow> int option \<Rightarrow> string list option \<Rightarrow>
   (string \<rightharpoonup> json) \<Rightarrow> bool \<Rightarrow> gemini_request" where
  "gemini_request_of prompt system_prompt temp max_tokens stops kwargs stream =
     \<lparr> parts = gemini_parts prompt system_prompt,
       config = gemini_config temp max_tokens stops kwargs,
       streamed = stream,
       safety_settings = kwargs_get kwargs ''safety_settings'' JNull \<rparr>"

text \<open>
  \<^verbatim>\<open>GeminiModel.generate\<close> with \<^verbatim>\<open>stream=False\<close>. With
  \<^verbatim>\<open>stream=True\<close> the method hands its arguments to
  \<^verbatim>\<open>_generate_stream\<close> and returns that generator, which is modelled further down.
\<close>

definition gemini_generate ::
  "gemini_model \<Rightarrow> string \<Rightarrow> string option \<Rightarrow> real \<Rightarrow> int option \<Rightarrow> string list option \<Rightarrow>
   (string \<rightharpoonup> json) \<Rightarrow> json" where
  "gemini_generate self prompt system_prompt temp max_tokens stops kwargs =
     try_except
       (bind_exn (gm_model self
                    (gemini_request_of prompt system_prompt temp max_tokens stops kwargs False))
          (\<lambda>response.
             let p = prompt_tokens (gm_tokenizer self) prompt system_prompt in
             bind_exn (response_text response)
               (\<lambda>text.
                  let c = gm_tokenizer self text in
                  Inr (result (JStr text) (gm_model_name self) (JStr ''stop'') (usage p c)))))
       (error_result (gm_model_name self))"

text \<open>
  One turn of the \<^verbatim>\<open>async for\<close> loop of \<^verbatim>\<open>GeminiModel._generate_stream\<close>:
  what it yields and the accumulated text afterwards. The handler of the inner
  \<^verbatim>\<open>try\<close> yields an error chunk and the loop goes on with the next chunk.
\<close>

fun gemini_chunk ::
  "(string \<Rightarrow> nat) \<Rightarrow> string \<Rightarrow> nat \<Rightarrow> native_chunk \<Rightarrow> string \<Rightarrow> json list \<times> string" where
  "gemini_chunk tok model_name p (ChunkText s) acc =
     (if s \<noteq> []
      then ([result (JStr s) model_name JNull (usage p (tok (acc @ s)))], acc @ s)
      else ([], acc))"
| "gemini_chunk tok model_name p ChunkNoText acc = ([], acc)"
| "gemini_chunk tok model_name p (ChunkRaises e) acc = ([chunk_error model_name], acc)"

fun gemini_loop ::
  "(string \<Rightarrow> nat) \<Rightarrow> string \<Rightarrow> nat \<Rightarrow> native_chunk list \<Rightarrow> string \<Rightarrow> json list \<times> string" where
  "gemini_loop tok model_name p [] acc = ([], acc)"
| "gemini_loop tok model_name p (c # cs) acc =
     (case gemini_chunk tok model_name p c acc of
        (out, acc') \<Rightarrow>
          (case gemini_loop tok model_name p cs acc' of
             (rest, acc'') \<Rightarrow> (out @ rest, acc'')))"

text \<open>
  The body of the outer \<^verbatim>\<open>try\<close>: start the stream, run the loop, and after the
  stream is exhausted yield the final chunk. A failure to start, or one raised by the
  iteration itself, ends the body with that exception.
\<close>

definition gemini_stream_body ::
  "gemini_model \<Rightarrow> string \<Rightarrow> string option \<Rightarrow> real \<Rightarrow> int option \<Rightarrow> string list option \<Rightarrow>
   (string \<rightharpoonup> json) \<Rightarrow> json gen" where
  "gemini_stream_body self prompt system_prompt temp max_tokens stops kwargs =
     (case gm_model self
             (gemini_request_of prompt system_prompt temp max_tokens stops kwargs True) of
        Inl e \<Rightarrow> ([], Some e)
      | Inr response \<Rightarrow>
          let p = prompt_tokens (gm_tokenizer self) prompt system_prompt in
          (case gemini_loop (gm_tokenizer self) (gm_model_name self) p
                  (response_chunks response) [] of
             (out, acc) \<Rightarrow>
               (case response_failure response of
                  Some e \<Rightarrow> (out, Some e)
                | None \<Rightarrow>
                    (out @ [result (JStr '''') (gm_model_name self) (JStr ''stop'')
                              (usage p (gm_tokenizer self acc))], None))))"

text \<open>\<^verbatim>\<open>GeminiModel._generate_stream\<close>: the chunks a consumer receives.\<close>

definition gemini_generate_stream ::
  "gemini_model \<Rightarrow> string \<Rightarrow> string option \<Rightarrow> real \<Rightarrow> int option \<Rightarrow> string list option \<Rightarrow>
   (string \<rightharpoonup> json) \<Rightarrow> json list" where
  "gemini_generate_stream self prompt system_prompt temp max_tokens stops kwargs =
     gen_try (gemini_stream_body self prompt system_prompt temp max_tokens stops kwargs)
       (error_result (gm_model_name self))"

section \<open>The Ollama adapter\<close>

text \<open>
  The HTTP exchange is the work of the httpx library. A request is what the adapter hands
  to it; a response is what the adapter reads from it: whether
  \<^verbatim>\<open>raise_for_status\<close> raises, what \<^verbatim>\<open>json()\<close> returns or raises, and for a
  streamed body the lines \<^verbatim>\<open>aiter_lines\<close> delivers, followed by the exception that
  ends the iteration if the transport fails before the body is exhausted.
\<close>

record http_request =
  base_url :: string
  path :: string
  json_payload :: json
  headers :: "(string \<times> string) list"
  timeout :: nat

record http_response =
  status_error :: "exn option"
  json_body :: "exn + json"
  body_lines :: "string list"
  body_failure :: "exn option"

record ollama_model =
  om_model_name :: string
  om_base_url :: string
  om_api_key :: "string option"
  om_tokenizer :: "string \<Rightarrow> nat"

definition ollama_messages :: "string \<Rightarrow> string option \<Rightarrow> json list" where
  "ollama_messages prompt system_prompt =
     (case system_prompt of
        None \<Rightarrow> []
      | Some s \<Rightarrow>
          if s \<noteq> [] then [JObj [(''role'', JStr ''system''), (''content'', JStr s)]]
          else [])
     @ [JObj [(''role'', JStr ''user''), (''content'', JStr prompt)]]"

definition ollama_options ::
  "real \<Rightarrow> int option \<Rightarrow> string list option \<Rightarrow> (string \<rightharpoonup> json) \<Rightarrow> (string \<times> json) list" where
  "ollama_options temp max_tokens stops kwargs =
     (let options = [(''temperature'', JFloat temp),
                     (''top_p'', kwargs_get kwargs ''top_p'' (JFloat (95 / 100))),
                     (''top_k'', kwargs_get kwargs ''top_k'' (JInt 40))];
          options = (case max_tokens of
                       None \<Rightarrow> options
                     | Some n \<Rightarrow>
                         if n \<noteq> 0 then dict_set options ''num_predict'' (JInt n)
                         else options);
          options = (case stops of
                       None \<Rightarrow> options
                     | Some ss \<Rightarrow>
                         if ss \<noteq> [] then dict_set options ''stop'' (JList (map JStr ss))
                         else options)
      in options)"

definition ollama_payload ::
  "string \<Rightarrow> string \<Rightarrow> string option \<Rightarrow> real \<Rightarrow> int option \<Rightarrow> string list option \<Rightarrow>
   (string \<rightharpoonup> json) \<Rightarrow> bool \<Rightarrow> json" where
  "ollama_payload model_name prompt system_prompt temp max_tokens stops kwargs stream =
     JObj [(''model'', JStr model_name),
           (''messages'', JList (ollama_messages prompt system_prompt)),
           (''stream'', JBool stream),
           (''options'', JObj (ollama_options temp max_tokens stops kwargs))]"

definition ollama_headers :: "string option \<Rightarrow> (string \<times> string) list" where
  "ollama_headers api_key =
     (''Content-Type'', ''application/json'')
     # (case api_key of
          None \<Rightarrow> []
        | Some k \<Rightarrow> if k \<noteq> [] then [(''Authorization'', ''Bearer '' @ k)] else [])"

definition ollama_request ::
  "ollama_model \<Rightarrow> string \<Rightarrow> string option \<Rightarrow> real \<Rightarrow> int option \<Rightarrow> string list option \<Rightarrow>
   (string \<rightharpoonup> json) \<Rightarrow> bool \<Rightarrow> http_request" where
  "ollama_request self prompt system_prompt temp max_tokens stops kwargs stream =
     \<lparr> base_url = om_base_url self,
       path = ''/api/chat'',
       json_payload = ollama_payload (om_model_name self) prompt system_prompt temp
                        max_tokens stops kwargs stream,
       headers = ollama_headers (om_api_key self),
       timeout = (if stream then 120 else 60) \<rparr>"

definition raise_for_status :: "http_response \<Rightarrow> exn + unit" where
  "raise_for_status response =
     (case status_error response of Some e \<Rightarrow> Inl e | None \<Rightarrow> Inr ())"

text \<open>The backend's own metrics, copied into the usage record (0 where absent).\<close>

definition metrics :: "json \<Rightarrow> exn + (string \<times> json) list" where
  "metrics v =
     bind_exn (dict_get v ''eval_count'' (JInt 0)) (\<lambda>a.
     bind_exn (dict_get v ''eval_duration'' (JInt 0)) (\<lambda>b.
     bind_exn (dict_get v ''total_duration'' (JInt 0)) (\<lambda>c.
       Inr [(''eval_count'', a), (''eval_duration'', b), (''total_duration'', c)])))"

text \<open>\<^verbatim>\<open>v.get("message", {}).get("content", "")\<close>\<close>

definition message_content :: "json \<Rightarrow> exn + json" where
  "message_content v =
     bind_exn (dict_get v ''message'' (JObj [])) (\<lambda>message.
       dict_get message ''content'' (JStr ''''))"

text \<open>
  \<^verbatim>\<open>OllamaModel.generate\<close> with \<^verbatim>\<open>stream=False\<close>; with
  \<^verbatim>\<open>stream=True\<close> it returns the generator of \<^verbatim>\<open>_generate_stream\<close>.
\<close>

definition ollama_generate ::
  "(http_request \<Rightarrow> exn + http_response) \<Rightarrow> ollama_model \<Rightarrow> string \<Rightarrow> string option \<Rightarrow>
   real \<Rightarrow> int option \<Rightarrow> string list option \<Rightarrow> (string \<rightharpoonup> json) \<Rightarrow> json" where
  "ollama_generate post self prompt system_prompt temp max_tokens stops kwargs =
     try_except
       (bind_exn (post (ollama_request self prompt system_prompt temp max_tokens stops
                          kwargs False)) (\<lambda>response.
        bind_exn (raise_for_status response) (\<lambda>_.
        bind_exn (json_body response) (\<lambda>res.
        bind_exn (message_content res) (\<lambda>text.
        let p = prompt_tokens (om_tokenizer self) prompt system_prompt in
        bind_exn (encode_len (om_tokenizer self) text) (\<lambda>c.
        bind_exn (metrics res) (\<lambda>ms.
          Inr (result text (om_model_name self) (JStr ''stop'') (usage p c @ ms)))))))))
       (error_result (om_model_name self))"

text \<open>\<^verbatim>\<open>accumulated_text += chunk_text\<close>: TypeError unless the right side is a string.\<close>

definition dquoted :: "string \<Rightarrow> string" where
  "dquoted s = [CHR 0x22] @ s @ [CHR 0x22]"

definition str_add :: "string \<Rightarrow> json \<Rightarrow> exn + string" where
  "str_add acc v =
     (case v of
        JStr s \<Rightarrow> Inr (acc @ s)
      | _ \<Rightarrow> Inl (''can only concatenate str (not '' @ dquoted (type_name v) @ '') to str''))"

datatype flow = Continue | Break

text \<open>
  The body of the inner \<^verbatim>\<open>try\<close> of \<^verbatim>\<open>OllamaModel._generate_stream\<close>, after
  the line has been parsed: the chunks it yields and then either the exception it raises or
  the accumulated text and whether the loop goes on.
\<close>

definition ollama_chunk ::
  "(string \<Rightarrow> nat) \<Rightarrow> string \<Rightarrow> nat \<Rightarrow> json \<Rightarrow> string \<Rightarrow>
   json list \<times> (exn + string \<times> flow)" where
  "ollama_chunk tok model_name p chunk_data acc =
     (case message_content chunk_data of
        Inl e \<Rightarrow> ([], Inl e)
      | Inr chunk_text \<Rightarrow>
          (case (if truthy chunk_text
                 then bind_exn (str_add acc chunk_text) (\<lambda>acc'.
                        Inr ([result chunk_text model_name JNull (usage p (tok acc'))], acc'))
                 else Inr ([], acc)) of
             Inl e \<Rightarrow> ([], Inl e)
           | Inr (out, acc') \<Rightarrow>
               (case dict_get chunk_data ''done'' (JBool False) of
                  Inl e \<Rightarrow> (out, Inl e)
                | Inr d \<Rightarrow>
                    if truthy d
                    then (case metrics chunk_data of
                            Inl e \<Rightarrow> (out, Inl e)
                          | Inr ms \<Rightarrow>
                              (out @ [result (JStr '''') model_name (JStr ''stop'')
                                        (usage p (tok acc') @ ms)],
                               Inr (acc', Break)))
                    else (out, Inr (acc', Continue)))))"

text \<open>
  One turn of the loop over the lines: an empty line and a line that is not JSON are
  passed over; the handler of any other exception yields an error chunk and leaves the loop.
  \<open>loads\<close> is \<^verbatim>\<open>json.loads\<close>, \<open>None\<close> where it raises JSONDecodeError.
\<close>

definition ollama_line ::
  "(string \<Rightarrow> json option) \<Rightarrow> (string \<Rightarrow> nat) \<Rightarrow> string \<Rightarrow> nat \<Rightarrow> string \<Rightarrow> string \<Rightarrow>
   json list \<times> string \<times> flow" where
  "ollama_line loads tok model_name p line acc =
     (if line = [] then ([], acc, Continue)
      else case loads line of
             None \<Rightarrow> ([], acc, Continue)
           | Some chunk_data \<Rightarrow>
               (case ollama_chunk tok model_name p chunk_data acc of
                  (out, Inl e) \<Rightarrow> (out @ [chunk_error model_name], acc, Break)
                | (out, Inr (acc', fl)) \<Rightarrow> (out, acc', fl)))"

fun ollama_loop ::
  "(string \<Rightarrow> json option) \<Rightarrow> (string \<Rightarrow> nat) \<Rightarrow> string \<Rightarrow> nat \<Rightarrow> string list \<Rightarrow>
   exn option \<Rightarrow> string \<Rightarrow> json gen" where
  "ollama_loop loads tok model_name p [] failure acc = ([], failure)"
| "ollama_loop loads tok model_name p (line # rest) failure acc =
     (case ollama_line loads tok model_name p line acc of
        (out, acc', Continue) \<Rightarrow>
          (case ollama_loop loads tok model_name p rest failure acc' of
             (later, r) \<Rightarrow> (out @ later, r))
      | (out, acc', Break) \<Rightarrow> (out, None))"

text \<open>The body of the outer \<^verbatim>\<open>try\<close> of \<^verbatim>\<open>OllamaModel._generate_stream\<close>.\<close>

definition ollama_stream_body ::
  "(http_request \<Rightarrow> exn + http_response) \<Rightarrow> (string \<Rightarrow> json option) \<Rightarrow> ollama_model \<Rightarrow>
   string \<Rightarrow> string option \<Rightarrow> real \<Rightarrow> int option \<Rightarrow> string list option \<Rightarrow>
   (string \<rightharpoonup> json) \<Rightarrow> json gen" where
  "ollama_stream_body post loads self prompt system_prompt temp max_tokens stops kwargs =
     (let p = prompt_tokens (om_tokenizer self) prompt system_prompt in
      case post (ollama_request self prompt system_prompt temp max_tokens stops kwargs True) of
        Inl e \<Rightarrow> ([], Some e)
      | Inr response \<Rightarrow>
          (case raise_for_status response of
             Inl e \<Rightarrow> ([], Some e)
           | Inr _ \<Rightarrow>
               ollama_loop loads (om_tokenizer self) (om_model_name self) p
                 (body_lines response) (body_failure response) []))"

text \<open>\<^verbatim>\<open>OllamaModel._generate_stream\<close>: the chunks a consumer receives.\<close>

definition ollama_generate_stream ::
  "(http_request \<Rightarrow> exn + http_response) \<Rightarrow> (string \<Rightarrow> json option) \<Rightarrow> ollama_model \<Rightarrow>
   string \<Rightarrow> string option \<Rightarrow> real \<Rightarrow> int option \<Rightarrow> string list option \<Rightarrow>
   (string \<rightharpoonup> json) \<Rightarrow> json list" where
  "ollama_generate_stream post loads self prompt system_prompt temp max_tokens stops kwargs =
     gen_try (ollama_stream_body post loads self prompt system_prompt temp max_tokens stops
                kwargs)
       (error_result (om_model_name self))"

section \<open>Reading emitted values\<close>

definition finish_reason :: "json \<Rightarrow> json option" where
  "finish_reason c = field c ''finish_reason''"

definition is_terminal :: "json \<Rightarrow> bool" where
  "is_terminal c =
     (finish_reason c = Some (JStr ''stop'') \<or> finish_reason c = Some (JStr ''error''))"

definition is_error :: "json \<Rightarrow> bool" where
  "is_error c = (finish_reason c = Some (JStr ''error''))"

text \<open>The shape the error-as-value policy promises for a failure with message \<open>e\<close>.\<close>

definition reports_error :: "json \<Rightarrow> exn \<Rightarrow> bool" where
  "reports_error r e =
     (field r ''finish_reason'' = Some (JStr ''error'') \<and>
      field r ''usage'' = Some (JObj []) \<and>
      field r ''text'' = Some (JStr (''Error generating content: '' @ e)))"

definition usage_field :: "json \<Rightarrow> string \<Rightarrow> json option" where
  "usage_field c k = (case field c ''usage'' of Some u \<Rightarrow> field u k | None \<Rightarrow> None)"

definition chunk_text :: "json \<Rightarrow> string" where
  "chunk_text c = (case field c ''text'' of Some (JStr s) \<Rightarrow> s | _ \<Rightarrow> [])"

text \<open>What a consumer assembles from a stream: the text of the chunks before the terminal one.\<close>

definition stream_text :: "json list \<Rightarrow> string" where
  "stream_text cs = concat (map chunk_text (filter (\<lambda>c. \<not> is_terminal c) cs))"

definition successful :: "json list \<Rightarrow> bool" where
  "successful cs =
     (cs \<noteq> [] \<and> finish_reason (last cs) = Some (JStr ''stop'') \<and>
      list_all (\<lambda>c. \<not> is_error c) cs)"

definition completion_tokens :: "json \<Rightarrow> int option" where
  "completion_tokens c =
     (case usage_field c ''completion_tokens'' of Some (JInt n) \<Rightarrow> Some n | _ \<Rightarrow> None)"

text \<open>The counts of the chunks that carry a usage record, in the order of the stream.\<close>

definition completion_counts :: "json list \<Rightarrow> int list" where
  "completion_counts cs = List.map_filter completion_tokens cs"

definition well_formed :: "string \<Rightarrow> json \<Rightarrow> bool" where
  "well_formed model_name v =
     (keys v = [''text'', ''model'', ''finish_reason'', ''usage''] \<and>
      field v ''model'' = Some (JStr model_name) \<and>
      (finish_reason v = Some JNull \<or> finish_reason v = Some (JStr ''stop'') \<or>
       finish_reason v = Some (JStr ''error'')))"

section \<open>Sample adapters and backends\<close>

text \<open>
  Concrete instances on which the theorems below are exercised: a Gemini adapter over a
  backend with one fixed outcome, an Ollama adapter as the test script constructs it, and
  an HTTP exchange with one fixed outcome. The sample estimator counts characters.
\<close>

definition gemini_with :: "exn + gemini_response \<Rightarrow> gemini_model" where
  "gemini_with outcome =
     \<lparr> gm_model_name = ''gemini-2.5-pro'', gm_model = (\<lambda>request. outcome),
       gm_tokenizer = length \<rparr>"

definition answers :: "string \<Rightarrow> gemini_response" where
  "answers s = \<lparr> response_text = Inr s, response_chunks = [], response_failure = None \<rparr>"


definition streams :: "native_chunk list \<Rightarrow> gemini_response" where
  "streams cs = \<lparr> response_text = Inl ''streamed'', response_chunks = cs,
                  response_failure = None \<rparr>"

definition llama3 :: ollama_model where
  "llama3 = \<lparr> om_model_name = ''llama3'', om_base_url = ''http://localhost:11434'',
              om_api_key = None, om_tokenizer = length \<rparr>"

definition post_with :: "exn + http_response \<Rightarrow> http_request \<Rightarrow> exn + http_response" where
  "post_with outcome request = outcome"


definition body :: "exn + json \<Rightarrow> http_response" where
  "body b = \<lparr> status_error = None, json_body = b, body_lines = [], body_failure = None \<rparr>"

definition lines :: "string list \<Rightarrow> http_response" where
  "lines ls = \<lparr> status_error = None, json_body = Inl ''streamed'', body_lines = ls,
                body_failure = None \<rparr>"

text \<open>
  The wire text and the parsed value of a line
  \<^verbatim>\<open>{"message":{"content":s},"done":b}\<close>, and a parser that knows the sample lines;
  every other line is malformed.
\<close>

definition content_line :: "string \<Rightarrow> bool \<Rightarrow> string" where
  "content_line s b =
     ''{'' @ dquoted ''message'' @ '':{'' @ dquoted ''content'' @ '':'' @ dquoted s @ ''},''
     @ dquoted ''done'' @ '':'' @ (if b then ''true'' else ''false'') @ ''}''"

definition content_json :: "string \<Rightarrow> bool \<Rightarrow> json" where
  "content_json s b =
     JObj [(''message'', JObj [(''content'', JStr s)]), (''done'', JBool b)]"

definition sample_loads :: "string \<Rightarrow> json option" where
  "sample_loads =
     map_of [(''[]'', JList []),
             (''{}'', JObj []),
             (content_line ''ab'' False, content_json ''ab'' False),
             (content_line ''c'' False, content_json ''c'' False),
             (content_line ''c'' True, content_json ''c'' True),
             (content_line [] True, content_json [] True)]"

section \<open>Statements about requests and usage\<close>

definition is_stop :: "json \<Rightarrow> bool" where
  "is_stop c = (finish_reason c = Some (JStr ''stop''))"


definition payload_option :: "http_request \<Rightarrow> string \<Rightarrow> json option" where
  "payload_option request k =
     (case field (json_payload request) ''options'' of
        Some options \<Rightarrow> field options k
      | None \<Rightarrow> None)"

section \<open>Shapes of the chunks of a stream\<close>

text \<open>
  The three dictionaries the streaming loops build: the error chunk of the inner handler,
  an incremental chunk, and the final chunk (with the backend's metrics on the Ollama
  adapter).
\<close>

definition yielded :: "string \<Rightarrow> nat \<Rightarrow> json \<Rightarrow> bool" where
  "yielded model_name p c =
     (c = chunk_error model_name \<or>
      (\<exists>s n. s \<noteq> [] \<and> c = result (JStr s) model_name JNull (usage p n)) \<or>
      (\<exists>n ms. c = result (JStr []) model_name (JStr ''stop'') (usage p n @ ms)))"

section \<open>Cumulative accounting\<close>

text \<open>
  Every chunk of \<open>cs\<close> that carries a completion count carries the estimate of the whole
  text so far: the text \<open>acc\<close> before \<open>cs\<close>, followed by the text of the chunks of
  \<open>cs\<close> up to and including that chunk.
\<close>

fun cumulative :: "(string \<Rightarrow> nat) \<Rightarrow> string \<Rightarrow> json list \<Rightarrow> bool" where
  "cumulative tok acc [] = True"
| "cumulative tok acc (c # cs) =
     (let acc' = (if is_terminal c then acc else acc @ chunk_text c)
      in (case completion_tokens c of None \<Rightarrow> True | Some n \<Rightarrow> n = int (tok acc')) \<and>
         cumulative tok acc' cs)"

text \<open>An estimator whose count never falls when text is appended.\<close>

definition monotone_estimator :: "(string \<Rightarrow> nat) \<Rightarrow> bool" where
  "monotone_estimator tok = (\<forall>s t. tok s \<le> tok (s @ t))"

text \<open>
  An estimator in the manner of a byte-pair encoding with one merged token: the word
  \<^verbatim>\<open>the\<close> counts one, every other character counts one.
\<close>

fun merge_count :: "string \<Rightarrow> nat" where
  "merge_count (a # b # c # rest) =
     (if [a, b, c] = ''the'' then Suc (merge_count rest)
      else Suc (merge_count (b # c # rest)))"
| "merge_count (a # rest) = Suc (merge_count rest)"
| "merge_count [] = 0"

section \<open>The text a backend delivers\<close>

text \<open>
  The fragments of a streamed response, taken from the backend's side. For the Gemini
  SDK they are the texts of the native chunks. For the Ollama endpoint they are the
  \<^verbatim>\<open>message.content\<close> strings of the lines up to and including the first line whose
  \<^verbatim>\<open>done\<close> field is true, which ends the response.
\<close>

fun native_text :: "native_chunk \<Rightarrow> string" where
  "native_text (ChunkText s) = s"
| "native_text ChunkNoText = []"
| "native_text (ChunkRaises e) = []"

definition gemini_delivered :: "native_chunk list \<Rightarrow> string" where
  "gemini_delivered cs = concat (map native_text cs)"

definition line_content :: "(string \<Rightarrow> json option) \<Rightarrow> string \<Rightarrow> string" where
  "line_content loads l =
     (if l = [] then []
      else case loads l of
             None \<Rightarrow> []
           | Some v \<Rightarrow> (case message_content v of Inr (JStr s) \<Rightarrow> s | _ \<Rightarrow> []))"

definition line_done :: "(string \<Rightarrow> json option) \<Rightarrow> string \<Rightarrow> bool" where
  "line_done loads l =
     (if l = [] then False
      else case loads l of
             None \<Rightarrow> False
           | Some v \<Rightarrow>
               (case dict_get v ''done'' (JBool False) of Inr d \<Rightarrow> truthy d | Inl e \<Rightarrow> False))"

fun lines_read :: "(string \<Rightarrow> json option) \<Rightarrow> string list \<Rightarrow> string list" where
  "lines_read loads [] = []"
| "lines_read loads (l # ls) = (if line_done loads l then [l] else l # lines_read loads ls)"

definition ollama_delivered :: "(string \<Rightarrow> json option) \<Rightarrow> string list \<Rightarrow> string" where
  "ollama_delivered loads ls = concat (map (line_content loads) (lines_read loads ls))"

text \<open>
  Sample backends that serve one answer both ways: whole to a single-shot request, in
  pieces to a streaming request.
\<close>

definition gemini_serving :: "string \<Rightarrow> native_chunk list \<Rightarrow> gemini_model" where
  "gemini_serving s cs =
     \<lparr> gm_model_name = ''gemini-2.5-pro'',
       gm_model = (\<lambda>request. if streamed request then Inr (streams cs) else Inr (answers s)),
       gm_tokenizer = length \<rparr>"

definition post_serving :: "json \<Rightarrow> string list \<Rightarrow> http_request \<Rightarrow> exn + http_response" where
  "post_serving v ls request =
     (if field (json_payload request) ''stream'' = Some (JBool True) then Inr (lines ls)
      else Inr (body (Inr v)))"

section \<open>Basic facts\<close>

lemma try_except_simps:
  "try_except (Inl e) h = h e"
  "try_except (Inr v) h = v"
  by (simp_all add: try_except_def)

lemma bind_exn_simps:
  "bind_exn (Inl e) f = Inl e"
  "bind_exn (Inr v) f = f v"
  by (simp_all add: bind_exn_def)

lemma reports_error_error_result: "reports_error (error_result m e) e"
  by (simp add: reports_error_def error_result_def result_def field_def)

section \<open>Errors are values\<close>



section \<open>The two outcomes of a single-shot call\<close>



lemma gemini_generate_cases:
  "(\<exists>e. gemini_generate self prompt sp temp mt stops kwargs
          = error_result (gm_model_name self) e) \<or>
   (\<exists>s. gemini_generate self prompt sp temp mt stops kwargs
          = result (JStr s) (gm_model_name self) (JStr ''stop'')
              (usage (prompt_tokens (gm_tokenizer self) prompt sp) (gm_tokenizer self s) @ []))"
  by (auto simp: gemini_generate_def bind_exn_def try_except_def split: sum.splits)

lemma ollama_generate_cases:
  "(\<exists>e. ollama_generate post self prompt sp temp mt stops kwargs
          = error_result (om_model_name self) e) \<or>
   (\<exists>s ms. ollama_generate post self prompt sp temp mt stops kwargs
          = result (JStr s) (om_model_name self) (JStr ''stop'')
              (usage (prompt_tokens (om_tokenizer self) prompt sp) (om_tokenizer self s) @ ms))"
  by (auto simp: ollama_generate_def bind_exn_def try_except_def encode_len_def
      split: sum.splits json.splits)

section \<open>Token accounting of a single-shot call\<close>



section \<open>Request options\<close>

lemma payload_option_eq:
  "payload_option (ollama_request self prompt sp temp mt stops kwargs stream) k =
     map_of (ollama_options temp mt stops kwargs) k"
  by (simp add: payload_option_def ollama_request_def ollama_payload_def field_def)

text \<open>
  C9, as the claim states it, fails: \<^verbatim>\<open>if max_tokens:\<close> tests the truth value, so a
  request with \<^verbatim>\<open>max_tokens=0\<close> has the field set and still sends no
  \<^verbatim>\<open>num_predict\<close>.
\<close>

theorem zero_max_tokens_counterexample:
  "\<not> (payload_option
          (ollama_request llama3 ''Hi'' None (7 / 10) (Some 0) None Map.empty False)
          ''num_predict'' \<noteq> None
        \<longleftrightarrow> Some (0::int) \<noteq> None)"
  by (simp add: payload_option_eq ollama_options_def)

text \<open>
  C9, amended. In the payload of the Ollama adapter, streaming or not,
  \<^verbatim>\<open>options.num_predict\<close> is present if and only if \<^verbatim>\<open>max_tokens\<close> is set to a
  number other than zero, and then holds that number; \<^verbatim>\<open>options.stop\<close> is present if
  and only if \<^verbatim>\<open>stop_sequences\<close> is set to a non-empty list, and then holds that list;
  an absent field is omitted, not sent as null. In both adapters a call without
  \<^verbatim>\<open>top_p\<close> and \<^verbatim>\<open>top_k\<close> sends \<^verbatim>\<open>top_p=0.95\<close> and \<^verbatim>\<open>top_k=40\<close>.
\<close>

theorem request_options:
  "(payload_option (ollama_request self prompt sp temp mt stops kwargs stream) ''num_predict''
      \<noteq> None \<longleftrightarrow> (\<exists>n. mt = Some n \<and> n \<noteq> 0)) \<and>
   (payload_option (ollama_request self prompt sp temp mt stops kwargs stream) ''num_predict''
      = (case mt of None \<Rightarrow> None | Some n \<Rightarrow> if n = 0 then None else Some (JInt n))) \<and>
   (payload_option (ollama_request self prompt sp temp mt stops kwargs stream) ''stop''
      \<noteq> None \<longleftrightarrow> (\<exists>ss. stops = Some ss \<and> ss \<noteq> [])) \<and>
   (payload_option (ollama_request self prompt sp temp mt stops kwargs stream) ''stop''
      = (case stops of
           None \<Rightarrow> None
         | Some ss \<Rightarrow> if ss = [] then None else Some (JList (map JStr ss)))) \<and>
   (kwargs ''top_p'' = None \<longrightarrow>
      payload_option (ollama_request self prompt sp temp mt stops kwargs stream) ''top_p''
        = Some (JFloat (95 / 100)) \<and>
      top_p (config (gemini_request_of prompt sp temp mt stops kwargs stream))
        = JFloat (95 / 100)) \<and>
   (kwargs ''top_k'' = None \<longrightarrow>
      payload_option (ollama_request self prompt sp temp mt stops kwargs stream) ''top_k''
        = Some (JInt 40) \<and>
      top_k (config (gemini_request_of prompt sp temp mt stops kwargs stream)) = JInt 40)"
  by (auto simp: payload_option_eq ollama_options_def gemini_request_of_def gemini_config_def
      kwargs_get_def split: option.splits)

theorem request_options_witness:
  "Map.empty ''top_p'' = (None :: json option) \<and> Map.empty ''top_k'' = (None :: json option) \<and>
   payload_option (ollama_request llama3 ''Hi'' None (7 / 10) (Some 256) (Some [''END''])
      Map.empty True) ''num_predict'' = Some (JInt 256) \<and>
   payload_option (ollama_request llama3 ''Hi'' None (7 / 10) (Some 256) (Some [''END''])
      Map.empty True) ''stop'' = Some (JList [JStr ''END'']) \<and>
   payload_option (ollama_request llama3 ''Hi'' None (7 / 10) (Some 256) (Some [''END''])
      Map.empty True) ''top_p'' = Some (JFloat (95 / 100)) \<and>
   payload_option (ollama_request llama3 ''Hi'' None (7 / 10) (Some 256) (Some [''END''])
      Map.empty True) ''top_k'' = Some (JInt 40) \<and>
   top_p (config (gemini_request_of ''Hi'' None (7 / 10) (Some 256) (Some [''END''])
      Map.empty True)) = JFloat (95 / 100) \<and>
   top_k (config (gemini_request_of ''Hi'' None (7 / 10) (Some 256) (Some [''END''])
      Map.empty True)) = JInt 40"
  using request_options [of llama3 "''Hi''" None "7 / 10" "Some 256" "Some [''END'']"
      Map.empty True]
  by simp

section \<open>The sample parser\<close>

lemma sample_loads_simps:
  "sample_loads ''<html>'' = None"
  "sample_loads ''[]'' = Some (JList [])"
  "sample_loads ''{}'' = Some (JObj [])"
  "sample_loads (content_line ''ab'' False) = Some (content_json ''ab'' False)"
  "sample_loads (content_line ''c'' False) = Some (content_json ''c'' False)"
  "sample_loads (content_line ''c'' True) = Some (content_json ''c'' True)"
  "sample_loads (content_line [] True) = Some (content_json [] True)"
  by (simp_all add: sample_loads_def content_line_def dquoted_def)

lemma content_line_not_empty: "content_line s b \<noteq> []"
  by (simp add: content_line_def)

section \<open>Lines of the Ollama stream\<close>




section \<open>Malformed lines\<close>



section \<open>A final line that carries text\<close>




section \<open>Terminal chunks\<close>

text \<open>
  C2 asks for exactly one terminal chunk per stream, the last one, and for the stream to end
  at an error chunk caused by a chunk-processing failure. The handler of the inner
  \<^verbatim>\<open>try\<close> of the Gemini loop yields the error chunk and has no \<^verbatim>\<open>break\<close>
  (the Ollama loop has one): after a chunk whose text cannot be read the stream goes on
  with the next chunk and ends with a second terminal chunk. The Ollama loop, for its
  part, yields a terminal chunk only inside the loop: a body that ends without a
  \<^verbatim>\<open>done\<close> line gives a stream without any terminal chunk.
\<close>

theorem gemini_stream_goes_on_after_error:
  "gemini_generate_stream
     (gemini_with (Inr (streams [ChunkRaises ''blocked'', ChunkText ''hi''])))
     ''Hi'' None (7 / 10) None None Map.empty
   = [chunk_error ''gemini-2.5-pro'',
      result (JStr ''hi'') ''gemini-2.5-pro'' JNull (usage 2 2),
      result (JStr []) ''gemini-2.5-pro'' (JStr ''stop'') (usage 2 2)] \<and>
   is_error (chunk_error ''gemini-2.5-pro'') \<and>
   is_stop (result (JStr []) ''gemini-2.5-pro'' (JStr ''stop'') (usage 2 2)) \<and>
   ollama_generate_stream (post_with (Inr (lines [content_line ''ab'' False]))) sample_loads
     llama3 ''Hi'' None (7 / 10) None None Map.empty
   = [result (JStr ''ab'') ''llama3'' JNull (usage 2 2)] \<and>
   \<not> is_terminal (result (JStr ''ab'') ''llama3'' JNull (usage 2 2))"
  by (simp add: gemini_generate_stream_def gemini_stream_body_def gemini_with_def streams_def
      gen_try_def prompt_tokens_def is_error_def is_stop_def is_terminal_def finish_reason_def
      chunk_error_def result_def field_def usage_def
      ollama_generate_stream_def ollama_stream_body_def post_with_def lines_def llama3_def
      raise_for_status_def ollama_line_def ollama_chunk_def message_content_def dict_get_def
      str_add_def bind_exn_simps sample_loads_simps content_json_def content_line_not_empty)

section \<open>What the streaming loops yield\<close>

lemma yielded_intros:
  "yielded m p (chunk_error m)"
  "s \<noteq> [] \<Longrightarrow> yielded m p (result (JStr s) m JNull (usage p n))"
  "yielded m p (result (JStr []) m (JStr ''stop'') (usage p n @ ms))"
  "yielded m p (result (JStr []) m (JStr ''stop'') (usage p n))"
proof -
  show "yielded m p (chunk_error m)"
    by (simp add: yielded_def)
  show "s \<noteq> [] \<Longrightarrow> yielded m p (result (JStr s) m JNull (usage p n))"
    unfolding yielded_def by blast
  have final: "yielded m p (result (JStr []) m (JStr ''stop'') (usage p n @ ms))" for ms
    unfolding yielded_def by blast
  show "yielded m p (result (JStr []) m (JStr ''stop'') (usage p n @ ms))"
    by (rule final)
  show "yielded m p (result (JStr []) m (JStr ''stop'') (usage p n))"
    using final [of "[]"] by simp
qed

lemma gemini_chunk_yielded:
  "c \<in> set (fst (gemini_chunk tok m p ch acc)) \<Longrightarrow> yielded m p c"
  by (cases ch) (auto simp: yielded_intros split: if_splits)

lemma gemini_loop_yielded:
  "c \<in> set (fst (gemini_loop tok m p cs acc)) \<Longrightarrow> yielded m p c"
proof (induction cs arbitrary: acc)
  case Nil
  then show ?case by simp
next
  case (Cons ch cs)
  obtain out acc' where step: "gemini_chunk tok m p ch acc = (out, acc')"
    by (cases "gemini_chunk tok m p ch acc")
  obtain rest acc'' where loop: "gemini_loop tok m p cs acc' = (rest, acc'')"
    by (cases "gemini_loop tok m p cs acc'")
  from Cons.prems step loop have "c \<in> set out \<or> c \<in> set rest" by simp
  then show ?case
  proof
    assume "c \<in> set out"
    with step show ?thesis using gemini_chunk_yielded [of c tok m p ch acc] by simp
  next
    assume "c \<in> set rest"
    with loop show ?thesis using Cons.IH [of acc'] by simp
  qed
qed

lemma ollama_chunk_yielded:
  "c \<in> set (fst (ollama_chunk tok m p v acc)) \<Longrightarrow> yielded m p c"
  by (auto simp: ollama_chunk_def yielded_intros str_add_def bind_exn_def
      split: sum.splits if_splits json.splits prod.splits)

lemma ollama_line_yielded:
  assumes "c \<in> set (fst (ollama_line loads tok m p l acc))"
  shows "yielded m p c"
proof (cases "l = [] \<or> loads l = None")
  case True
  with assms show ?thesis by (auto simp: ollama_line_def split: if_splits)
next
  case False
  then obtain v where v: "l \<noteq> []" "loads l = Some v" by auto
  obtain out r where ch: "ollama_chunk tok m p v acc = (out, r)"
    by (cases "ollama_chunk tok m p v acc")
  from assms v ch have "c \<in> set out \<or> c = chunk_error m"
    by (auto simp: ollama_line_def split: sum.splits prod.splits)
  then show ?thesis
    using ollama_chunk_yielded [of c tok m p v acc] ch by (auto simp: yielded_intros)
qed

lemma ollama_loop_yielded:
  "c \<in> set (fst (ollama_loop loads tok m p ls failure acc)) \<Longrightarrow> yielded m p c"
proof (induction ls arbitrary: acc)
  case Nil
  then show ?case by simp
next
  case (Cons l ls)
  obtain out acc' fl where step: "ollama_line loads tok m p l acc = (out, acc', fl)"
    by (cases "ollama_line loads tok m p l acc") auto
  show ?case
  proof (cases fl)
    case Break
    with Cons.prems step show ?thesis
      using ollama_line_yielded [of c loads tok m p l acc] by simp
  next
    case Continue
    obtain rest r where loop: "ollama_loop loads tok m p ls failure acc' = (rest, r)"
      by (cases "ollama_loop loads tok m p ls failure acc'")
    from Cons.prems step Continue loop have "c \<in> set out \<or> c \<in> set rest" by simp
    then show ?thesis
    proof
      assume "c \<in> set out"
      with step show ?thesis using ollama_line_yielded [of c loads tok m p l acc] by simp
    next
      assume "c \<in> set rest"
      with loop show ?thesis using Cons.IH [of acc'] by simp
    qed
  qed
qed

lemma gemini_body_yielded:
  assumes "c \<in> set (fst (gemini_stream_body self prompt sp temp mt stops kwargs))"
  shows "yielded (gm_model_name self) (prompt_tokens (gm_tokenizer self) prompt sp) c"
proof (cases "gm_model self (gemini_request_of prompt sp temp mt stops kwargs True)")
  case (Inl e)
  with assms show ?thesis by (simp add: gemini_stream_body_def)
next
  case (Inr response)
  obtain out acc where loop:
    "gemini_loop (gm_tokenizer self) (gm_model_name self)
       (prompt_tokens (gm_tokenizer self) prompt sp) (response_chunks response) [] = (out, acc)"
    by (cases "gemini_loop (gm_tokenizer self) (gm_model_name self)
       (prompt_tokens (gm_tokenizer self) prompt sp) (response_chunks response) []")
  have "yielded (gm_model_name self) (prompt_tokens (gm_tokenizer self) prompt sp) c"
    if "c \<in> set out"
    using that loop
      gemini_loop_yielded [of c "gm_tokenizer self" "gm_model_name self"
        "prompt_tokens (gm_tokenizer self) prompt sp" "response_chunks response" "[]"]
    by simp
  with assms Inr loop show ?thesis
    by (auto simp: gemini_stream_body_def yielded_intros split: option.splits)
qed

lemma ollama_body_yielded:
  assumes "c \<in> set (fst (ollama_stream_body post loads self prompt sp temp mt stops kwargs))"
  shows "yielded (om_model_name self) (prompt_tokens (om_tokenizer self) prompt sp) c"
  using assms ollama_loop_yielded [of c loads "om_tokenizer self" "om_model_name self"
      "prompt_tokens (om_tokenizer self) prompt sp"]
  by (auto simp: ollama_stream_body_def split: sum.splits)

lemma gen_try_members:
  "c \<in> set (gen_try g h) \<Longrightarrow> c \<in> set (fst g) \<or> (\<exists>e. snd g = Some e \<and> c = h e)"
  by (auto simp: gen_try_def split: option.splits)

lemma gemini_stream_members:
  assumes "c \<in> set (gemini_generate_stream self prompt sp temp mt stops kwargs)"
  shows "yielded (gm_model_name self) (prompt_tokens (gm_tokenizer self) prompt sp) c \<or>
         (\<exists>e. c = error_result (gm_model_name self) e)"
  using assms
    gen_try_members [of c "gemini_stream_body self prompt sp temp mt stops kwargs"
      "error_result (gm_model_name self)"]
    gemini_body_yielded [of c self prompt sp temp mt stops kwargs]
  unfolding gemini_generate_stream_def by blast

lemma ollama_stream_members:
  assumes "c \<in> set (ollama_generate_stream post loads self prompt sp temp mt stops kwargs)"
  shows "yielded (om_model_name self) (prompt_tokens (om_tokenizer self) prompt sp) c \<or>
         (\<exists>e. c = error_result (om_model_name self) e)"
  using assms
    gen_try_members [of c "ollama_stream_body post loads self prompt sp temp mt stops kwargs"
      "error_result (om_model_name self)"]
    ollama_body_yielded [of c post loads self prompt sp temp mt stops kwargs]
  unfolding ollama_generate_stream_def by blast

lemma well_formed_yielded: "yielded m p c \<Longrightarrow> well_formed m c"
  by (auto simp: yielded_def well_formed_def chunk_error_def result_def keys_def field_def
      finish_reason_def)

lemma well_formed_error_result: "well_formed m (error_result m e)"
  by (simp add: well_formed_def error_result_def result_def keys_def field_def
      finish_reason_def)

lemma well_formed_stop: "well_formed m (result t m (JStr ''stop'') u)"
  by (simp add: well_formed_def result_def keys_def field_def finish_reason_def)

section \<open>Shape of every emitted value\<close>

text \<open>
  C10. Every value either adapter emits, from \<^verbatim>\<open>generate\<close> or from the streaming
  generator, whether a successful result, an intermediate chunk, a terminal chunk or an
  error result or chunk, is a dictionary with exactly the four keys \<^verbatim>\<open>text\<close>,
  \<^verbatim>\<open>model\<close>, \<^verbatim>\<open>finish_reason\<close> and \<^verbatim>\<open>usage\<close>; its \<^verbatim>\<open>model\<close> is the
  model name fixed at construction and its \<^verbatim>\<open>finish_reason\<close> is null,
  \<^verbatim>\<open>"stop"\<close> or \<^verbatim>\<open>"error"\<close>.
\<close>

theorem emitted_values_well_formed:
  "well_formed (gm_model_name gself) (gemini_generate gself prompt sp temp mt stops kwargs) \<and>
   (\<forall>c \<in> set (gemini_generate_stream gself prompt sp temp mt stops kwargs).
      well_formed (gm_model_name gself) c) \<and>
   well_formed (om_model_name oself)
     (ollama_generate post oself prompt sp temp mt stops kwargs) \<and>
   (\<forall>c \<in> set (ollama_generate_stream post loads oself prompt sp temp mt stops kwargs).
      well_formed (om_model_name oself) c)"
proof (intro conjI ballI)
  show "well_formed (gm_model_name gself)
          (gemini_generate gself prompt sp temp mt stops kwargs)"
    using gemini_generate_cases [of gself prompt sp temp mt stops kwargs]
    by (auto simp: well_formed_error_result well_formed_stop)
  show "well_formed (om_model_name oself)
          (ollama_generate post oself prompt sp temp mt stops kwargs)"
    using ollama_generate_cases [of post oself prompt sp temp mt stops kwargs]
    by (auto simp: well_formed_error_result well_formed_stop)
  show "well_formed (gm_model_name gself) c"
    if "c \<in> set (gemini_generate_stream gself prompt sp temp mt stops kwargs)" for c
    using gemini_stream_members [OF that]
    by (auto simp: well_formed_error_result dest: well_formed_yielded)
  show "well_formed (om_model_name oself) c"
    if "c \<in> set (ollama_generate_stream post loads oself prompt sp temp mt stops kwargs)"
    for c
    using ollama_stream_members [OF that]
    by (auto simp: well_formed_error_result dest: well_formed_yielded)
qed

section \<open>Sample streams\<close>

lemma sample_names:
  "gm_model_name (gemini_with outcome) = ''gemini-2.5-pro''"
  "gm_tokenizer (gemini_with outcome) = length"
  "gm_model (gemini_with outcome) request = outcome"
  "om_model_name llama3 = ''llama3''"
  "om_tokenizer llama3 = length"
  by (simp_all add: gemini_with_def llama3_def)

lemma gemini_sample_stream:
  "gemini_generate_stream
     (gemini_with (Inr (streams [ChunkRaises ''blocked'', ChunkText ''hi''])))
     ''Hi'' None (7 / 10) None None Map.empty
   = [chunk_error ''gemini-2.5-pro'',
      result (JStr ''hi'') ''gemini-2.5-pro'' JNull (usage 2 2),
      result (JStr []) ''gemini-2.5-pro'' (JStr ''stop'') (usage 2 2)]"
  by (simp add: gemini_generate_stream_def gemini_stream_body_def gemini_with_def streams_def
      gen_try_def prompt_tokens_def usage_def)

lemma ollama_sample_stream:
  "ollama_generate_stream (post_with (Inr (lines [''[]'', content_line ''ab'' False])))
     sample_loads llama3 ''Hi'' None (7 / 10) None None Map.empty
   = [chunk_error ''llama3'']"
  by (simp add: ollama_generate_stream_def ollama_stream_body_def post_with_def lines_def
      llama3_def gen_try_def raise_for_status_def ollama_line_def ollama_chunk_def
      message_content_def dict_get_def bind_exn_simps sample_loads_simps)

lemma gemini_sample_body:
  "gemini_stream_body
     (gemini_with (Inr (streams [ChunkRaises ''blocked'', ChunkText ''hi''])))
     ''Hi'' None (7 / 10) None None Map.empty
   = ([chunk_error ''gemini-2.5-pro'',
       result (JStr ''hi'') ''gemini-2.5-pro'' JNull (usage 2 2),
       result (JStr []) ''gemini-2.5-pro'' (JStr ''stop'') (usage 2 2)], None)"
  "gemini_stream_body (gemini_with (Inl ''connection refused'')) ''Hi'' None (7 / 10) None
     None Map.empty = ([], Some ''connection refused'')"
  by (simp_all add: gemini_stream_body_def gemini_with_def streams_def prompt_tokens_def
      usage_def)

lemma ollama_sample_body:
  "ollama_stream_body (post_with (Inr (lines [''[]'', content_line ''ab'' False])))
     sample_loads llama3 ''Hi'' None (7 / 10) None None Map.empty
   = ([chunk_error ''llama3''], None)"
  "ollama_stream_body (post_with (Inl ''connection refused'')) sample_loads llama3 ''Hi''
     None (7 / 10) None None Map.empty = ([], Some ''connection refused'')"
  by (simp_all add: ollama_stream_body_def post_with_def lines_def llama3_def
      raise_for_status_def ollama_line_def ollama_chunk_def message_content_def dict_get_def
      bind_exn_simps sample_loads_simps)

lemma is_error_chunk_error: "is_error (chunk_error m)"
  by (simp add: is_error_def finish_reason_def chunk_error_def result_def field_def)

lemma is_error_error_result: "is_error (error_result m e)"
  by (simp add: is_error_def finish_reason_def error_result_def result_def field_def)

theorem emitted_values_well_formed_witness:
  "chunk_error ''gemini-2.5-pro''
     \<in> set (gemini_generate_stream
              (gemini_with (Inr (streams [ChunkRaises ''blocked'', ChunkText ''hi''])))
              ''Hi'' None (7 / 10) None None Map.empty) \<and>
   well_formed ''gemini-2.5-pro'' (chunk_error ''gemini-2.5-pro'') \<and>
   chunk_error ''llama3''
     \<in> set (ollama_generate_stream
              (post_with (Inr (lines [''[]'', content_line ''ab'' False])))
              sample_loads llama3 ''Hi'' None (7 / 10) None None Map.empty) \<and>
   well_formed ''llama3'' (chunk_error ''llama3'') \<and>
   well_formed ''gemini-2.5-pro''
     (gemini_generate (gemini_with (Inr (streams [ChunkRaises ''blocked'', ChunkText ''hi''])))
        ''Hi'' None (7 / 10) None None Map.empty) \<and>
   well_formed ''llama3''
     (ollama_generate (post_with (Inr (lines [''[]'', content_line ''ab'' False]))) llama3
        ''Hi'' None (7 / 10) None None Map.empty)"
  using emitted_values_well_formed
      [of "gemini_with (Inr (streams [ChunkRaises ''blocked'', ChunkText ''hi'']))"
        "''Hi''" None "7 / 10" None None Map.empty llama3
        "post_with (Inr (lines [''[]'', content_line ''ab'' False]))" sample_loads]
  by (simp add: gemini_sample_stream ollama_sample_stream sample_names)

section \<open>The text of an error\<close>

text \<open>
  C8, as the claim states it, fails: the handler of the per-chunk \<^verbatim>\<open>try\<close> of both
  streaming loops yields an error chunk whose text is the empty string. Here the body holds
  the line \<^verbatim>\<open>[]\<close>, which is JSON but no object.
\<close>

theorem chunk_failure_text_counterexample:
  "ollama_generate_stream (post_with (Inr (lines [''[]'']))) sample_loads llama3 ''Hi'' None
     (7 / 10) None None Map.empty = [chunk_error ''llama3''] \<and>
   is_error (chunk_error ''llama3'') \<and>
   field (chunk_error ''llama3'') ''text'' = Some (JStr [])"
  by (simp add: ollama_generate_stream_def ollama_stream_body_def post_with_def lines_def
      llama3_def gen_try_def raise_for_status_def ollama_line_def ollama_chunk_def
      message_content_def dict_get_def bind_exn_simps sample_loads_simps
      is_error_def finish_reason_def chunk_error_def result_def field_def)

lemma is_error_yielded:
  "yielded m p c \<Longrightarrow> is_error c \<Longrightarrow> field c ''text'' = Some (JStr [])"
  by (auto simp: yielded_def is_error_def finish_reason_def chunk_error_def result_def
      field_def)

lemma is_error_stop: "\<not> is_error (result t m (JStr ''stop'') u)"
  by (simp add: is_error_def finish_reason_def result_def field_def)

text \<open>
  C8, amended. An error result of the non-streaming path, and the error chunk a stream
  ends with when the outer \<^verbatim>\<open>try\<close> catches an exception (the stream could not be
  started, or the transport failed while it was read), carry the text
  \<^verbatim>\<open>Error generating content: \<close> followed by the message of the exception, so the
  text is not empty. An error chunk yielded inside the body of a stream, by the handler of
  a chunk-processing failure, carries the empty string.
\<close>

theorem error_text:
  "(is_error (gemini_generate gself prompt sp temp mt stops kwargs) \<longrightarrow>
      (\<exists>e. reports_error (gemini_generate gself prompt sp temp mt stops kwargs) e)) \<and>
   (is_error (ollama_generate post oself prompt sp temp mt stops kwargs) \<longrightarrow>
      (\<exists>e. reports_error (ollama_generate post oself prompt sp temp mt stops kwargs) e)) \<and>
   (\<forall>c \<in> set (fst (gemini_stream_body gself prompt sp temp mt stops kwargs)).
      is_error c \<longrightarrow> field c ''text'' = Some (JStr [])) \<and>
   (snd (gemini_stream_body gself prompt sp temp mt stops kwargs) = None \<longrightarrow>
      gemini_generate_stream gself prompt sp temp mt stops kwargs
        = fst (gemini_stream_body gself prompt sp temp mt stops kwargs)) \<and>
   (\<forall>e. snd (gemini_stream_body gself prompt sp temp mt stops kwargs) = Some e \<longrightarrow>
      (\<exists>r. gemini_generate_stream gself prompt sp temp mt stops kwargs
              = fst (gemini_stream_body gself prompt sp temp mt stops kwargs) @ [r] \<and>
            reports_error r e)) \<and>
   (\<forall>c \<in> set (fst (ollama_stream_body post loads oself prompt sp temp mt stops kwargs)).
      is_error c \<longrightarrow> field c ''text'' = Some (JStr [])) \<and>
   (snd (ollama_stream_body post loads oself prompt sp temp mt stops kwargs) = None \<longrightarrow>
      ollama_generate_stream post loads oself prompt sp temp mt stops kwargs
        = fst (ollama_stream_body post loads oself prompt sp temp mt stops kwargs)) \<and>
   (\<forall>e. snd (ollama_stream_body post loads oself prompt sp temp mt stops kwargs) = Some e \<longrightarrow>
      (\<exists>r. ollama_generate_stream post loads oself prompt sp temp mt stops kwargs
              = fst (ollama_stream_body post loads oself prompt sp temp mt stops kwargs) @ [r] \<and>
            reports_error r e))"
proof (intro conjI ballI allI impI)
  show "\<exists>e. reports_error (gemini_generate gself prompt sp temp mt stops kwargs) e"
    if "is_error (gemini_generate gself prompt sp temp mt stops kwargs)"
    using that gemini_generate_cases [of gself prompt sp temp mt stops kwargs]
      reports_error_error_result [of "gm_model_name gself"]
    by (fastforce simp: is_error_stop simp del: append_Nil2)
  show "\<exists>e. reports_error (ollama_generate post oself prompt sp temp mt stops kwargs) e"
    if "is_error (ollama_generate post oself prompt sp temp mt stops kwargs)"
    using that ollama_generate_cases [of post oself prompt sp temp mt stops kwargs]
      reports_error_error_result [of "om_model_name oself"]
    by (fastforce simp: is_error_stop)
  show "field c ''text'' = Some (JStr [])"
    if "c \<in> set (fst (gemini_stream_body gself prompt sp temp mt stops kwargs))"
      and "is_error c" for c
    using that gemini_body_yielded is_error_yielded by blast
  show "field c ''text'' = Some (JStr [])"
    if "c \<in> set (fst (ollama_stream_body post loads oself prompt sp temp mt stops kwargs))"
      and "is_error c" for c
    using that ollama_body_yielded is_error_yielded by blast
qed (auto simp: gemini_generate_stream_def ollama_generate_stream_def gen_try_def
    reports_error_error_result)

theorem error_text_witness:
  "is_error (gemini_generate (gemini_with (Inl ''connection refused'')) ''Hi'' None (7 / 10)
      None None Map.empty) \<and>
   (\<exists>e. reports_error (gemini_generate (gemini_with (Inl ''connection refused'')) ''Hi'' None
      (7 / 10) None None Map.empty) e) \<and>
   is_error (ollama_generate (post_with (Inl ''connection refused'')) llama3 ''Hi'' None
      (7 / 10) None None Map.empty) \<and>
   (\<exists>e. reports_error (ollama_generate (post_with (Inl ''connection refused'')) llama3 ''Hi''
      None (7 / 10) None None Map.empty) e) \<and>
   chunk_error ''gemini-2.5-pro''
     \<in> set (fst (gemini_stream_body
                   (gemini_with (Inr (streams [ChunkRaises ''blocked'', ChunkText ''hi''])))
                   ''Hi'' None (7 / 10) None None Map.empty)) \<and>
   is_error (chunk_error ''gemini-2.5-pro'') \<and>
   field (chunk_error ''gemini-2.5-pro'') ''text'' = Some (JStr []) \<and>
   snd (gemini_stream_body
          (gemini_with (Inr (streams [ChunkRaises ''blocked'', ChunkText ''hi''])))
          ''Hi'' None (7 / 10) None None Map.empty) = None \<and>
   gemini_generate_stream
     (gemini_with (Inr (streams [ChunkRaises ''blocked'', ChunkText ''hi''])))
     ''Hi'' None (7 / 10) None None Map.empty
   = fst (gemini_stream_body
            (gemini_with (Inr (streams [ChunkRaises ''blocked'', ChunkText ''hi''])))
            ''Hi'' None (7 / 10) None None Map.empty) \<and>
   snd (gemini_stream_body (gemini_with (Inl ''connection refused'')) ''Hi'' None (7 / 10)
          None None Map.empty) = Some ''connection refused'' \<and>
   (\<exists>r. gemini_generate_stream (gemini_with (Inl ''connection refused'')) ''Hi'' None
           (7 / 10) None None Map.empty
         = fst (gemini_stream_body (gemini_with (Inl ''connection refused'')) ''Hi'' None
                  (7 / 10) None None Map.empty) @ [r] \<and>
         reports_error r ''connection refused'') \<and>
   chunk_error ''llama3''
     \<in> set (fst (ollama_stream_body
                   (post_with (Inr (lines [''[]'', content_line ''ab'' False])))
                   sample_loads llama3 ''Hi'' None (7 / 10) None None Map.empty)) \<and>
   is_error (chunk_error ''llama3'') \<and>
   field (chunk_error ''llama3'') ''text'' = Some (JStr []) \<and>
   snd (ollama_stream_body (post_with (Inr (lines [''[]'', content_line ''ab'' False])))
          sample_loads llama3 ''Hi'' None (7 / 10) None None Map.empty) = None \<and>
   ollama_generate_stream (post_with (Inr (lines [''[]'', content_line ''ab'' False])))
     sample_loads llama3 ''Hi'' None (7 / 10) None None Map.empty
   = fst (ollama_stream_body (post_with (Inr (lines [''[]'', content_line ''ab'' False])))
            sample_loads llama3 ''Hi'' None (7 / 10) None None Map.empty) \<and>
   snd (ollama_stream_body (post_with (Inl ''connection refused'')) sample_loads llama3
          ''Hi'' None (7 / 10) None None Map.empty) = Some ''connection refused'' \<and>
   (\<exists>r. ollama_generate_stream (post_with (Inl ''connection refused'')) sample_loads llama3
           ''Hi'' None (7 / 10) None None Map.empty
         = fst (ollama_stream_body (post_with (Inl ''connection refused'')) sample_loads
                  llama3 ''Hi'' None (7 / 10) None None Map.empty) @ [r] \<and>
         reports_error r ''connection refused'')"
proof -
  have g: "is_error (gemini_generate (gemini_with (Inl ''connection refused'')) ''Hi'' None
      (7 / 10) None None Map.empty)"
    by (simp add: gemini_generate_def sample_names bind_exn_simps try_except_simps
        is_error_error_result)
  have o: "is_error (ollama_generate (post_with (Inl ''connection refused'')) llama3 ''Hi''
      None (7 / 10) None None Map.empty)"
    by (simp add: ollama_generate_def post_with_def bind_exn_simps try_except_simps
        is_error_error_result)
  note failing = error_text [of "gemini_with (Inl ''connection refused'')" "''Hi''" None
      "7 / 10" None None Map.empty "post_with (Inl ''connection refused'')" llama3
      sample_loads]
  note running = error_text
      [of "gemini_with (Inr (streams [ChunkRaises ''blocked'', ChunkText ''hi'']))" "''Hi''"
        None "7 / 10" None None Map.empty
        "post_with (Inr (lines [''[]'', content_line ''ab'' False]))" llama3 sample_loads]
  from failing g o have
    "(\<exists>e. reports_error (gemini_generate (gemini_with (Inl ''connection refused'')) ''Hi'' None
        (7 / 10) None None Map.empty) e)"
    "(\<exists>e. reports_error (ollama_generate (post_with (Inl ''connection refused'')) llama3 ''Hi''
        None (7 / 10) None None Map.empty) e)"
    by blast+
  moreover from failing have
    "\<exists>r. gemini_generate_stream (gemini_with (Inl ''connection refused'')) ''Hi'' None
           (7 / 10) None None Map.empty
         = fst (gemini_stream_body (gemini_with (Inl ''connection refused'')) ''Hi'' None
                  (7 / 10) None None Map.empty) @ [r] \<and>
         reports_error r ''connection refused''"
    "\<exists>r. ollama_generate_stream (post_with (Inl ''connection refused'')) sample_loads llama3
           ''Hi'' None (7 / 10) None None Map.empty
         = fst (ollama_stream_body (post_with (Inl ''connection refused'')) sample_loads
                  llama3 ''Hi'' None (7 / 10) None None Map.empty) @ [r] \<and>
         reports_error r ''connection refused''"
    by (simp_all add: gemini_sample_body ollama_sample_body)
  moreover from running have
    "field (chunk_error ''gemini-2.5-pro'') ''text'' = Some (JStr [])"
    "field (chunk_error ''llama3'') ''text'' = Some (JStr [])"
    "gemini_generate_stream
       (gemini_with (Inr (streams [ChunkRaises ''blocked'', ChunkText ''hi''])))
       ''Hi'' None (7 / 10) None None Map.empty
     = fst (gemini_stream_body
              (gemini_with (Inr (streams [ChunkRaises ''blocked'', ChunkText ''hi''])))
              ''Hi'' None (7 / 10) None None Map.empty)"
    "ollama_generate_stream (post_with (Inr (lines [''[]'', content_line ''ab'' False])))
       sample_loads llama3 ''Hi'' None (7 / 10) None None Map.empty
     = fst (ollama_stream_body (post_with (Inr (lines [''[]'', content_line ''ab'' False])))
              sample_loads llama3 ''Hi'' None (7 / 10) None None Map.empty)"
    by (simp_all add: gemini_sample_body ollama_sample_body is_error_chunk_error)
  ultimately show ?thesis
    using g o by (simp add: gemini_sample_body ollama_sample_body is_error_chunk_error)
qed


section \<open>Cumulative completion counts\<close>

lemma observe_result:
  "is_terminal (result t m fr u) = (fr = JStr ''stop'' \<or> fr = JStr ''error'')"
  "chunk_text (result (JStr s) m fr u) = s"
  "completion_tokens (result t m fr (usage p n @ ms)) = Some (int n)"
  "completion_tokens (result t m fr (usage p n)) = Some (int n)"
  "completion_tokens (result t m fr []) = None"
  by (auto simp: is_terminal_def finish_reason_def chunk_text_def completion_tokens_def
      usage_field_def result_def usage_def field_def)

lemma observe_errors:
  "is_terminal (chunk_error m)" "completion_tokens (chunk_error m) = None"
  "is_terminal (error_result m e)" "completion_tokens (error_result m e) = None"
  by (simp_all add: chunk_error_def error_result_def observe_result)

lemma stream_text_simps:
  "stream_text [] = []"
  "stream_text (c # cs) = (if is_terminal c then [] else chunk_text c) @ stream_text cs"
  "stream_text (xs @ ys) = stream_text xs @ stream_text ys"
  by (simp_all add: stream_text_def)

lemma cumulative_append:
  "cumulative tok acc (xs @ ys)
     = (cumulative tok acc xs \<and> cumulative tok (acc @ stream_text xs) ys)"
  by (induction xs arbitrary: acc) (auto simp: stream_text_simps Let_def)

lemma gemini_chunk_cumulative:
  "gemini_chunk tok m p ch acc = (out, acc') \<Longrightarrow>
   cumulative tok acc out \<and> acc' = acc @ stream_text out"
  by (cases ch) (auto simp: observe_result observe_errors stream_text_simps split: if_splits)

lemma gemini_loop_cumulative:
  "gemini_loop tok m p cs acc = (out, acc') \<Longrightarrow>
   cumulative tok acc out \<and> acc' = acc @ stream_text out"
proof (induction cs arbitrary: acc out acc')
  case Nil
  then show ?case by (simp add: stream_text_simps)
next
  case (Cons ch cs)
  obtain o1 a1 where step: "gemini_chunk tok m p ch acc = (o1, a1)"
    by (cases "gemini_chunk tok m p ch acc")
  obtain o2 a2 where loop: "gemini_loop tok m p cs a1 = (o2, a2)"
    by (cases "gemini_loop tok m p cs a1")
  from Cons.prems step loop have out: "out = o1 @ o2" "acc' = a2" by simp_all
  from gemini_chunk_cumulative [OF step] Cons.IH [OF loop] out
  show ?case by (simp add: cumulative_append stream_text_simps)
qed


lemma ollama_chunk_cumulative:
  "ollama_chunk tok m p v acc = (out, r) \<Longrightarrow>
   cumulative tok acc out \<and> (\<forall>acc' fl. r = Inr (acc', fl) \<longrightarrow> acc' = acc @ stream_text out)"
  by (auto simp: ollama_chunk_def str_add_def bind_exn_def observe_result stream_text_simps
      split: sum.splits if_splits json.splits prod.splits)

lemma ollama_line_cumulative:
  assumes "ollama_line loads tok m p l acc = (out, acc', fl)"
  shows "cumulative tok acc out \<and> (fl = Continue \<longrightarrow> acc' = acc @ stream_text out)"
proof (cases "l = [] \<or> loads l = None")
  case True
  with assms show ?thesis
    by (auto simp: ollama_line_def stream_text_simps split: if_splits)
next
  case False
  then obtain v where v: "l \<noteq> []" "loads l = Some v" by auto
  obtain o1 r where ch: "ollama_chunk tok m p v acc = (o1, r)"
    by (cases "ollama_chunk tok m p v acc")
  from ollama_chunk_cumulative [OF ch] assms v ch show ?thesis
    by (auto simp: ollama_line_def cumulative_append observe_errors split: sum.splits)
qed

lemma ollama_loop_cumulative:
  "ollama_loop loads tok m p ls failure acc = (out, r) \<Longrightarrow> cumulative tok acc out"
proof (induction ls arbitrary: acc out r)
  case Nil
  then show ?case by simp
next
  case (Cons l ls)
  obtain o1 a1 fl where step: "ollama_line loads tok m p l acc = (o1, a1, fl)"
    by (cases "ollama_line loads tok m p l acc") auto
  note line = ollama_line_cumulative [OF step]
  show ?case
  proof (cases fl)
    case Break
    with Cons.prems step line show ?thesis by simp
  next
    case Continue
    obtain o2 r2 where loop: "ollama_loop loads tok m p ls failure a1 = (o2, r2)"
      by (cases "ollama_loop loads tok m p ls failure a1")
    from Cons.prems step Continue loop have "out = o1 @ o2" by simp
    with line Continue Cons.IH [OF loop] show ?thesis
      by (simp add: cumulative_append)
  qed
qed

lemma gen_try_cumulative:
  "cumulative tok acc (fst g) \<Longrightarrow> cumulative tok acc (gen_try g (error_result m))"
  by (simp add: gen_try_def cumulative_append observe_errors split: option.splits)

lemma gemini_stream_cumulative:
  "cumulative (gm_tokenizer self) []
     (gemini_generate_stream self prompt sp temp mt stops kwargs)"
proof -
  have "cumulative (gm_tokenizer self) []
          (fst (gemini_stream_body self prompt sp temp mt stops kwargs))"
  proof (cases "gm_model self (gemini_request_of prompt sp temp mt stops kwargs True)")
    case (Inl e)
    then show ?thesis by (simp add: gemini_stream_body_def)
  next
    case (Inr response)
    obtain out acc where loop:
      "gemini_loop (gm_tokenizer self) (gm_model_name self)
         (prompt_tokens (gm_tokenizer self) prompt sp) (response_chunks response) []
       = (out, acc)"
      by (cases "gemini_loop (gm_tokenizer self) (gm_model_name self)
         (prompt_tokens (gm_tokenizer self) prompt sp) (response_chunks response) []")
    from gemini_loop_cumulative [OF loop] Inr loop show ?thesis
      by (simp add: gemini_stream_body_def cumulative_append observe_result
          split: option.splits)
  qed
  then show ?thesis
    unfolding gemini_generate_stream_def by (rule gen_try_cumulative)
qed

lemma ollama_stream_cumulative:
  "cumulative (om_tokenizer self) []
     (ollama_generate_stream post loads self prompt sp temp mt stops kwargs)"
proof -
  have "cumulative (om_tokenizer self) []
          (fst (ollama_stream_body post loads self prompt sp temp mt stops kwargs))"
  proof (cases "post (ollama_request self prompt sp temp mt stops kwargs True)")
    case (Inl e)
    then show ?thesis by (simp add: ollama_stream_body_def)
  next
    case (Inr response)
    obtain out r where loop:
      "ollama_loop loads (om_tokenizer self) (om_model_name self)
         (prompt_tokens (om_tokenizer self) prompt sp) (body_lines response)
         (body_failure response) [] = (out, r)"
      by (cases "ollama_loop loads (om_tokenizer self) (om_model_name self)
         (prompt_tokens (om_tokenizer self) prompt sp) (body_lines response)
         (body_failure response) []")
    from ollama_loop_cumulative [OF loop] Inr loop show ?thesis
      by (simp add: ollama_stream_body_def split: sum.splits)
  qed
  then show ?thesis
    unfolding ollama_generate_stream_def by (rule gen_try_cumulative)
qed

lemma completion_counts_Nil: "completion_counts [] = []"
  by (simp add: completion_counts_def List.map_filter_simps)

lemma completion_counts_Cons:
  "completion_counts (c # cs)
     = (case completion_tokens c of None \<Rightarrow> completion_counts cs
        | Some n \<Rightarrow> n # completion_counts cs)"
  by (simp add: completion_counts_def List.map_filter_simps split: option.splits)

lemma cumulative_sorted:
  assumes "monotone_estimator tok"
  shows "cumulative tok acc cs \<Longrightarrow>
         sorted (completion_counts cs) \<and> (\<forall>n \<in> set (completion_counts cs). int (tok acc) \<le> n)"
proof (induction cs arbitrary: acc)
  case Nil
  then show ?case by (simp add: completion_counts_Nil)
next
  case (Cons c cs)
  define acc' where "acc' = (if is_terminal c then acc else acc @ chunk_text c)"
  from assms have mono: "int (tok acc) \<le> int (tok acc')"
    by (simp add: acc'_def monotone_estimator_def)
  from Cons.prems have rest: "cumulative tok acc' cs"
    and here: "\<And>n. completion_tokens c = Some n \<Longrightarrow> n = int (tok acc')"
    by (simp_all add: acc'_def Let_def)
  from Cons.IH [OF rest] have ih: "sorted (completion_counts cs)"
    "\<And>n. n \<in> set (completion_counts cs) \<Longrightarrow> int (tok acc') \<le> n"
    by simp_all
  show ?case
  proof (cases "completion_tokens c")
    case None
    with ih mono show ?thesis by (fastforce simp: completion_counts_Cons)
  next
    case (Some n)
    with here have "n = int (tok acc')" by simp
    with Some ih mono show ?thesis by (fastforce simp: completion_counts_Cons)
  qed
qed

text \<open>
  C4, as the claim states it, fails: recomputing the count over the whole accumulated text
  does not keep it from falling, since an estimator may count a longer text with fewer
  tokens. With an estimator that merges \<^verbatim>\<open>the\<close> into one token, the fragments
  \<^verbatim>\<open>th\<close> and \<^verbatim>\<open>e\<close> give the counts 2, 1, 1.
\<close>

theorem completion_tokens_fall_counterexample:
  "completion_counts
     (gemini_generate_stream
        ((gemini_with (Inr (streams [ChunkText ''th'', ChunkText ''e''])))
           \<lparr>gm_tokenizer := merge_count\<rparr>)
        ''Hi'' None (7 / 10) None None Map.empty) = [2, 1, 1] \<and>
   \<not> sorted [2, 1, 1 :: int]"
  by (simp add: gemini_generate_stream_def gemini_stream_body_def gemini_with_def streams_def
      gen_try_def Let_def completion_counts_Nil completion_counts_Cons observe_result)

text \<open>
  C4, amended. Within a stream of either adapter, the \<^verbatim>\<open>completion_tokens\<close> of every
  chunk that carries a usage record is the estimator's count of the whole text accumulated
  up to and including that chunk; the counts of successive chunks are non-decreasing
  whenever the estimator never counts less for a text than for a prefix of it.
\<close>

theorem cumulative_completion_tokens:
  "cumulative (gm_tokenizer gself) []
     (gemini_generate_stream gself prompt sp temp mt stops kwargs) \<and>
   cumulative (om_tokenizer oself) []
     (ollama_generate_stream post loads oself prompt sp temp mt stops kwargs) \<and>
   (monotone_estimator (gm_tokenizer gself) \<longrightarrow>
      sorted (completion_counts (gemini_generate_stream gself prompt sp temp mt stops kwargs))) \<and>
   (monotone_estimator (om_tokenizer oself) \<longrightarrow>
      sorted (completion_counts
                (ollama_generate_stream post loads oself prompt sp temp mt stops kwargs)))"
  using gemini_stream_cumulative [of gself prompt sp temp mt stops kwargs]
    ollama_stream_cumulative [of oself post loads prompt sp temp mt stops kwargs]
    cumulative_sorted [of "gm_tokenizer gself" "[]"
      "gemini_generate_stream gself prompt sp temp mt stops kwargs"]
    cumulative_sorted [of "om_tokenizer oself" "[]"
      "ollama_generate_stream post loads oself prompt sp temp mt stops kwargs"]
  by simp

lemma monotone_length: "monotone_estimator length"
  by (simp add: monotone_estimator_def)

theorem cumulative_completion_tokens_witness:
  "monotone_estimator length \<and>
   completion_counts
     (gemini_generate_stream (gemini_with (Inr (streams [ChunkText ''th'', ChunkText ''e''])))
        ''Hi'' None (7 / 10) None None Map.empty) = [2, 3, 3] \<and>
   sorted (completion_counts
     (gemini_generate_stream (gemini_with (Inr (streams [ChunkText ''th'', ChunkText ''e''])))
        ''Hi'' None (7 / 10) None None Map.empty)) \<and>
   completion_counts
     (ollama_generate_stream
        (post_with (Inr (lines [content_line ''ab'' False, content_line ''c'' True])))
        sample_loads llama3 ''Hi'' None (7 / 10) None None Map.empty) = [2, 3, 3] \<and>
   sorted (completion_counts
     (ollama_generate_stream
        (post_with (Inr (lines [content_line ''ab'' False, content_line ''c'' True])))
        sample_loads llama3 ''Hi'' None (7 / 10) None None Map.empty))"
proof -
  have g: "completion_counts
     (gemini_generate_stream (gemini_with (Inr (streams [ChunkText ''th'', ChunkText ''e''])))
        ''Hi'' None (7 / 10) None None Map.empty) = [2, 3, 3]"
    by (simp add: gemini_generate_stream_def gemini_stream_body_def gemini_with_def
        streams_def gen_try_def Let_def completion_counts_Nil completion_counts_Cons
        observe_result)
  have o: "completion_counts
     (ollama_generate_stream
        (post_with (Inr (lines [content_line ''ab'' False, content_line ''c'' True])))
        sample_loads llama3 ''Hi'' None (7 / 10) None None Map.empty) = [2, 3, 3]"
    by (simp add: ollama_generate_stream_def ollama_stream_body_def post_with_def lines_def
        llama3_def gen_try_def Let_def raise_for_status_def ollama_line_def ollama_chunk_def
        message_content_def metrics_def dict_get_def str_add_def bind_exn_simps
        sample_loads_simps content_json_def content_line_not_empty
        completion_counts_Nil completion_counts_Cons observe_result)
  from cumulative_completion_tokens
      [of "gemini_with (Inr (streams [ChunkText ''th'', ChunkText ''e'']))" "''Hi''" None
        "7 / 10" None None Map.empty llama3
        "post_with (Inr (lines [content_line ''ab'' False, content_line ''c'' True]))"
        sample_loads]
    monotone_length
  have "sorted (completion_counts
     (gemini_generate_stream (gemini_with (Inr (streams [ChunkText ''th'', ChunkText ''e''])))
        ''Hi'' None (7 / 10) None None Map.empty))"
    "sorted (completion_counts
     (ollama_generate_stream
        (post_with (Inr (lines [content_line ''ab'' False, content_line ''c'' True])))
        sample_loads llama3 ''Hi'' None (7 / 10) None None Map.empty))"
    by (simp_all add: sample_names)
  with g o monotone_length show ?thesis by simp
qed


section \<open>The text of a stream\<close>

lemma gemini_chunk_text:
  "gemini_chunk tok m p ch acc = (out, acc') \<Longrightarrow> stream_text out = native_text ch"
  by (cases ch) (auto simp: stream_text_simps observe_result observe_errors split: if_splits)

lemma gemini_loop_text:
  "gemini_loop tok m p cs acc = (out, acc') \<Longrightarrow> stream_text out = gemini_delivered cs"
proof (induction cs arbitrary: acc out acc')
  case Nil
  then show ?case by (simp add: stream_text_simps gemini_delivered_def)
next
  case (Cons ch cs)
  obtain o1 a1 where step: "gemini_chunk tok m p ch acc = (o1, a1)"
    by (cases "gemini_chunk tok m p ch acc")
  obtain o2 a2 where loop: "gemini_loop tok m p cs a1 = (o2, a2)"
    by (cases "gemini_loop tok m p cs a1")
  from Cons.prems step loop have "out = o1 @ o2" by simp
  with gemini_chunk_text [OF step] Cons.IH [OF loop] show ?case
    by (simp add: stream_text_simps gemini_delivered_def)
qed

lemma successful_no_error: "successful cs \<Longrightarrow> c \<in> set cs \<Longrightarrow> \<not> is_error c"
  by (simp add: successful_def list_all_iff)

lemma gemini_successful_text:
  assumes start: "gm_model self (gemini_request_of prompt sp temp mt stops kwargs True)
                    = Inr sresp"
    and ok: "successful (gemini_generate_stream self prompt sp temp mt stops kwargs)"
  shows "stream_text (gemini_generate_stream self prompt sp temp mt stops kwargs)
           = gemini_delivered (response_chunks sresp)"
proof -
  obtain out acc where loop:
    "gemini_loop (gm_tokenizer self) (gm_model_name self)
       (prompt_tokens (gm_tokenizer self) prompt sp) (response_chunks sresp) [] = (out, acc)"
    by (cases "gemini_loop (gm_tokenizer self) (gm_model_name self)
       (prompt_tokens (gm_tokenizer self) prompt sp) (response_chunks sresp) []")
  show ?thesis
  proof (cases "response_failure sresp")
    case None
    with start loop gemini_loop_text [OF loop] show ?thesis
      by (simp add: gemini_generate_stream_def gemini_stream_body_def gen_try_def
          stream_text_simps observe_result)
  next
    case (Some e)
    with start loop
    have "error_result (gm_model_name self) e
            \<in> set (gemini_generate_stream self prompt sp temp mt stops kwargs)"
      by (simp add: gemini_generate_stream_def gemini_stream_body_def gen_try_def)
    with successful_no_error [OF ok] is_error_error_result show ?thesis by blast
  qed
qed

lemma ollama_chunk_text:
  "ollama_chunk tok m p v acc = (out, Inr (acc', fl)) \<Longrightarrow>
   stream_text out = (case message_content v of Inr (JStr s) \<Rightarrow> s | _ \<Rightarrow> []) \<and>
   (fl = Break) = (case dict_get v ''done'' (JBool False) of Inr d \<Rightarrow> truthy d | Inl e \<Rightarrow> False)"
  by (auto simp: ollama_chunk_def str_add_def bind_exn_def observe_result stream_text_simps
      split: sum.splits if_splits json.splits prod.splits)

lemma ollama_line_text:
  assumes "ollama_line loads tok m p l acc = (out, acc', fl)"
    and "list_all (\<lambda>c. \<not> is_error c) out"
  shows "stream_text out = line_content loads l \<and> (fl = Break) = line_done loads l"
proof (cases "l = [] \<or> loads l = None")
  case True
  with assms show ?thesis
    by (auto simp: ollama_line_def line_content_def line_done_def stream_text_simps
        split: if_splits)
next
  case False
  then obtain v where v: "l \<noteq> []" "loads l = Some v" by auto
  obtain o1 r where ch: "ollama_chunk tok m p v acc = (o1, r)"
    by (cases "ollama_chunk tok m p v acc")
  show ?thesis
  proof (cases r)
    case (Inl e)
    with assms(1) v ch have "out = o1 @ [chunk_error m]"
      by (simp add: ollama_line_def)
    with assms(2) show ?thesis
      by (simp add: is_error_chunk_error)
  next
    case (Inr pr)
    obtain a1 f1 where pr: "pr = (a1, f1)" by (cases pr)
    from assms(1) v ch Inr pr have "out = o1" "fl = f1" by (simp_all add: ollama_line_def)
    with ollama_chunk_text [of tok m p v acc o1 a1 f1] ch Inr pr v show ?thesis
      by (simp add: line_content_def line_done_def)
  qed
qed

lemma ollama_loop_text:
  "ollama_loop loads tok m p ls failure acc = (out, r) \<Longrightarrow>
   list_all (\<lambda>c. \<not> is_error c) out \<Longrightarrow>
   stream_text out = ollama_delivered loads ls"
proof (induction ls arbitrary: acc out r)
  case Nil
  then show ?case by (simp add: stream_text_simps ollama_delivered_def)
next
  case (Cons l ls)
  obtain o1 a1 fl where step: "ollama_line loads tok m p l acc = (o1, a1, fl)"
    by (cases "ollama_line loads tok m p l acc") auto
  show ?case
  proof (cases fl)
    case Break
    with Cons.prems step have "out = o1" by simp
    with ollama_line_text [OF step] Cons.prems(2) Break show ?thesis
      by (simp add: ollama_delivered_def)
  next
    case Continue
    obtain o2 r2 where loop: "ollama_loop loads tok m p ls failure a1 = (o2, r2)"
      by (cases "ollama_loop loads tok m p ls failure a1")
    from Cons.prems(1) step Continue loop have out: "out = o1 @ o2" by simp
    with Cons.prems(2) have ok: "list_all (\<lambda>c. \<not> is_error c) o1"
      "list_all (\<lambda>c. \<not> is_error c) o2" by simp_all
    from ollama_line_text [OF step ok(1)] Continue Cons.IH [OF loop ok(2)] out show ?thesis
      by (simp add: stream_text_simps ollama_delivered_def)
  qed
qed


lemma ollama_successful_text:
  assumes start: "post (ollama_request self prompt sp temp mt stops kwargs True) = Inr sresp"
    and ok: "successful (ollama_generate_stream post loads self prompt sp temp mt stops kwargs)"
  shows "stream_text (ollama_generate_stream post loads self prompt sp temp mt stops kwargs)
           = ollama_delivered loads (body_lines sresp)"
proof -
  obtain out r where loop:
    "ollama_loop loads (om_tokenizer self) (om_model_name self)
       (prompt_tokens (om_tokenizer self) prompt sp) (body_lines sresp)
       (body_failure sresp) [] = (out, r)"
    by (cases "ollama_loop loads (om_tokenizer self) (om_model_name self)
       (prompt_tokens (om_tokenizer self) prompt sp) (body_lines sresp)
       (body_failure sresp) []")
  have body: "ollama_stream_body post loads self prompt sp temp mt stops kwargs
                = (case status_error sresp of Some e \<Rightarrow> ([], Some e) | None \<Rightarrow> (out, r))"
    using start loop
    by (simp add: ollama_stream_body_def raise_for_status_def split: option.splits)
  have eq: "ollama_generate_stream post loads self prompt sp temp mt stops kwargs = out"
  proof (cases "status_error sresp")
    case (Some e)
    with body
    have "error_result (om_model_name self) e
            \<in> set (ollama_generate_stream post loads self prompt sp temp mt stops kwargs)"
      by (simp add: ollama_generate_stream_def gen_try_def)
    with successful_no_error [OF ok] is_error_error_result show ?thesis by blast
  next
    case None
    show ?thesis
    proof (cases r)
      case (Some e)
      with body None
      have "error_result (om_model_name self) e
              \<in> set (ollama_generate_stream post loads self prompt sp temp mt stops kwargs)"
        by (simp add: ollama_generate_stream_def gen_try_def)
      with successful_no_error [OF ok] is_error_error_result show ?thesis by blast
    next
      case unfailed: None
      with body \<open>status_error sresp = None\<close> show ?thesis
        by (simp add: ollama_generate_stream_def gen_try_def)
    qed
  qed
  with ok have "list_all (\<lambda>c. \<not> is_error c) out"
    by (simp add: successful_def)
  from ollama_loop_text [OF loop this] eq show ?thesis by simp
qed

lemma field_text_result: "field (result t m fr u) ''text'' = Some t"
  by (simp add: field_def result_def)

lemma metrics_after_content: "message_content v = Inr t \<Longrightarrow> \<exists>ms. metrics v = Inr ms"
  by (cases v) (simp_all add: message_content_def dict_get_def bind_exn_simps metrics_def)

text \<open>
  C3. For a successful stream of either adapter, one that ends with a
  \<^verbatim>\<open>"stop"\<close> chunk and holds no error chunk, the concatenation of the text of the
  non-terminal chunks is the concatenation of the fragments the backend delivered; and it
  is the text the non-streaming call returns for the equivalent request, that is, when the
  backend answers the single-shot request with the text it streams.
\<close>

theorem stream_text_matches_single_shot:
  "(gm_model gself (gemini_request_of prompt sp temp mt stops kwargs True) = Inr sresp \<and>
    successful (gemini_generate_stream gself prompt sp temp mt stops kwargs) \<and>
    gm_model gself (gemini_request_of prompt sp temp mt stops kwargs False) = Inr nresp \<and>
    response_text nresp = Inr (gemini_delivered (response_chunks sresp)) \<longrightarrow>
      stream_text (gemini_generate_stream gself prompt sp temp mt stops kwargs)
        = gemini_delivered (response_chunks sresp) \<and>
      field (gemini_generate gself prompt sp temp mt stops kwargs) ''text''
        = Some (JStr (stream_text
                        (gemini_generate_stream gself prompt sp temp mt stops kwargs)))) \<and>
   (post (ollama_request oself prompt sp temp mt stops kwargs True) = Inr hsresp \<and>
    successful (ollama_generate_stream post loads oself prompt sp temp mt stops kwargs) \<and>
    post (ollama_request oself prompt sp temp mt stops kwargs False) = Inr hnresp \<and>
    status_error hnresp = None \<and> json_body hnresp = Inr v \<and>
    message_content v = Inr (JStr (ollama_delivered loads (body_lines hsresp))) \<longrightarrow>
      stream_text (ollama_generate_stream post loads oself prompt sp temp mt stops kwargs)
        = ollama_delivered loads (body_lines hsresp) \<and>
      field (ollama_generate post oself prompt sp temp mt stops kwargs) ''text''
        = Some (JStr (stream_text
                        (ollama_generate_stream post loads oself prompt sp temp mt stops
                           kwargs))))"
proof (intro conjI impI)
  assume g: "gm_model gself (gemini_request_of prompt sp temp mt stops kwargs True)
               = Inr sresp \<and>
    successful (gemini_generate_stream gself prompt sp temp mt stops kwargs) \<and>
    gm_model gself (gemini_request_of prompt sp temp mt stops kwargs False) = Inr nresp \<and>
    response_text nresp = Inr (gemini_delivered (response_chunks sresp))"
  then show st: "stream_text (gemini_generate_stream gself prompt sp temp mt stops kwargs)
        = gemini_delivered (response_chunks sresp)"
    using gemini_successful_text by blast
  from g show "field (gemini_generate gself prompt sp temp mt stops kwargs) ''text''
        = Some (JStr (stream_text
                        (gemini_generate_stream gself prompt sp temp mt stops kwargs)))"
    unfolding st
    by (simp add: gemini_generate_def bind_exn_simps try_except_simps field_text_result)
next
  assume o: "post (ollama_request oself prompt sp temp mt stops kwargs True) = Inr hsresp \<and>
    successful (ollama_generate_stream post loads oself prompt sp temp mt stops kwargs) \<and>
    post (ollama_request oself prompt sp temp mt stops kwargs False) = Inr hnresp \<and>
    status_error hnresp = None \<and> json_body hnresp = Inr v \<and>
    message_content v = Inr (JStr (ollama_delivered loads (body_lines hsresp)))"
  then show st: "stream_text
         (ollama_generate_stream post loads oself prompt sp temp mt stops kwargs)
        = ollama_delivered loads (body_lines hsresp)"
    using ollama_successful_text by blast
  from o metrics_after_content [of v] obtain ms where "metrics v = Inr ms" by blast
  with o show "field (ollama_generate post oself prompt sp temp mt stops kwargs) ''text''
        = Some (JStr (stream_text
                        (ollama_generate_stream post loads oself prompt sp temp mt stops
                           kwargs)))"
    unfolding st
    by (simp add: ollama_generate_def raise_for_status_def encode_len_def bind_exn_simps
        try_except_simps field_text_result)
qed

lemma serving_gemini:
  "gm_model (gemini_serving ''the'' [ChunkText ''th'', ChunkText ''e''])
     (gemini_request_of ''Hi'' None (7 / 10) None None Map.empty True)
   = Inr (streams [ChunkText ''th'', ChunkText ''e''])"
  "gm_model (gemini_serving ''the'' [ChunkText ''th'', ChunkText ''e''])
     (gemini_request_of ''Hi'' None (7 / 10) None None Map.empty False)
   = Inr (answers ''the'')"
  "gemini_generate_stream (gemini_serving ''the'' [ChunkText ''th'', ChunkText ''e''])
     ''Hi'' None (7 / 10) None None Map.empty
   = [result (JStr ''th'') ''gemini-2.5-pro'' JNull (usage 2 2),
      result (JStr ''e'') ''gemini-2.5-pro'' JNull (usage 2 3),
      result (JStr []) ''gemini-2.5-pro'' (JStr ''stop'') (usage 2 3)]"
  by (simp_all add: gemini_serving_def gemini_request_of_def gemini_generate_stream_def
      gemini_stream_body_def streams_def gen_try_def prompt_tokens_def usage_def)

lemma serving_ollama:
  "post_serving (content_json ''abc'' True)
     [content_line ''ab'' False, content_line ''c'' True]
     (ollama_request llama3 ''Hi'' None (7 / 10) None None Map.empty True)
   = Inr (lines [content_line ''ab'' False, content_line ''c'' True])"
  "post_serving (content_json ''abc'' True)
     [content_line ''ab'' False, content_line ''c'' True]
     (ollama_request llama3 ''Hi'' None (7 / 10) None None Map.empty False)
   = Inr (body (Inr (content_json ''abc'' True)))"
  by (simp_all add: post_serving_def ollama_request_def ollama_payload_def field_def)

lemma serving_ollama_stream:
  "ollama_generate_stream
     (post_serving (content_json ''abc'' True)
        [content_line ''ab'' False, content_line ''c'' True])
     sample_loads llama3 ''Hi'' None (7 / 10) None None Map.empty
   = [result (JStr ''ab'') ''llama3'' JNull (usage 2 2),
      result (JStr ''c'') ''llama3'' JNull (usage 2 3),
      result (JStr []) ''llama3'' (JStr ''stop'')
        (usage 2 3 @ [(''eval_count'', JInt 0), (''eval_duration'', JInt 0),
                      (''total_duration'', JInt 0)])]"
  unfolding ollama_generate_stream_def ollama_stream_body_def serving_ollama
  by (simp add: lines_def sample_names gen_try_def prompt_tokens_def raise_for_status_def
      ollama_line_def ollama_chunk_def message_content_def metrics_def dict_get_def
      str_add_def bind_exn_simps sample_loads_simps content_json_def content_line_not_empty
      usage_def)

lemma successful_sample:
  "successful [result t1 m JNull u1, result t2 m JNull u2, result t3 m (JStr ''stop'') u3]"
  by (simp add: successful_def is_error_def finish_reason_def result_def field_def)

theorem stream_text_matches_single_shot_witness:
  "gm_model (gemini_serving ''the'' [ChunkText ''th'', ChunkText ''e''])
     (gemini_request_of ''Hi'' None (7 / 10) None None Map.empty True)
   = Inr (streams [ChunkText ''th'', ChunkText ''e'']) \<and>
   successful
     (gemini_generate_stream (gemini_serving ''the'' [ChunkText ''th'', ChunkText ''e''])
        ''Hi'' None (7 / 10) None None Map.empty) \<and>
   gm_model (gemini_serving ''the'' [ChunkText ''th'', ChunkText ''e''])
     (gemini_request_of ''Hi'' None (7 / 10) None None Map.empty False)
   = Inr (answers ''the'') \<and>
   response_text (answers ''the'')
   = Inr (gemini_delivered (response_chunks (streams [ChunkText ''th'', ChunkText ''e'']))) \<and>
   stream_text
     (gemini_generate_stream (gemini_serving ''the'' [ChunkText ''th'', ChunkText ''e''])
        ''Hi'' None (7 / 10) None None Map.empty) = ''the'' \<and>
   field (gemini_generate (gemini_serving ''the'' [ChunkText ''th'', ChunkText ''e''])
            ''Hi'' None (7 / 10) None None Map.empty) ''text'' = Some (JStr ''the'') \<and>
   post_serving (content_json ''abc'' True)
     [content_line ''ab'' False, content_line ''c'' True]
     (ollama_request llama3 ''Hi'' None (7 / 10) None None Map.empty True)
   = Inr (lines [content_line ''ab'' False, content_line ''c'' True]) \<and>
   successful
     (ollama_generate_stream
        (post_serving (content_json ''abc'' True)
           [content_line ''ab'' False, content_line ''c'' True])
        sample_loads llama3 ''Hi'' None (7 / 10) None None Map.empty) \<and>
   post_serving (content_json ''abc'' True)
     [content_line ''ab'' False, content_line ''c'' True]
     (ollama_request llama3 ''Hi'' None (7 / 10) None None Map.empty False)
   = Inr (body (Inr (content_json ''abc'' True))) \<and>
   status_error (body (Inr (content_json ''abc'' True))) = None \<and>
   json_body (body (Inr (content_json ''abc'' True))) = Inr (content_json ''abc'' True) \<and>
   message_content (content_json ''abc'' True)
   = Inr (JStr (ollama_delivered sample_loads
                 (body_lines (lines [content_line ''ab'' False, content_line ''c'' True])))) \<and>
   stream_text
     (ollama_generate_stream
        (post_serving (content_json ''abc'' True)
           [content_line ''ab'' False, content_line ''c'' True])
        sample_loads llama3 ''Hi'' None (7 / 10) None None Map.empty) = ''abc'' \<and>
   field (ollama_generate
            (post_serving (content_json ''abc'' True)
               [content_line ''ab'' False, content_line ''c'' True])
            llama3 ''Hi'' None (7 / 10) None None Map.empty) ''text'' = Some (JStr ''abc'')"
proof -
  have gd: "gemini_delivered (response_chunks (streams [ChunkText ''th'', ChunkText ''e'']))
              = ''the''"
    by (simp add: gemini_delivered_def streams_def)
  have od: "ollama_delivered sample_loads
              (body_lines (lines [content_line ''ab'' False, content_line ''c'' True]))
              = ''abc''"
    by (simp add: ollama_delivered_def lines_def line_done_def line_content_def
        sample_loads_simps content_json_def content_line_not_empty message_content_def
        dict_get_def bind_exn_simps)
  have gs: "successful
     (gemini_generate_stream (gemini_serving ''the'' [ChunkText ''th'', ChunkText ''e''])
        ''Hi'' None (7 / 10) None None Map.empty)"
    by (simp add: serving_gemini successful_sample)
  have os: "successful
     (ollama_generate_stream
        (post_serving (content_json ''abc'' True)
           [content_line ''ab'' False, content_line ''c'' True])
        sample_loads llama3 ''Hi'' None (7 / 10) None None Map.empty)"
    by (simp add: serving_ollama_stream successful_sample)
  have nt: "response_text (answers ''the'') = Inr ''the''"
    by (simp add: answers_def)
  have nb: "status_error (body (Inr (content_json ''abc'' True))) = None"
    "json_body (body (Inr (content_json ''abc'' True))) = Inr (content_json ''abc'' True)"
    "message_content (content_json ''abc'' True) = Inr (JStr ''abc'')"
    by (simp_all add: body_def content_json_def message_content_def dict_get_def
        bind_exn_simps)
  from stream_text_matches_single_shot
      [of "gemini_serving ''the'' [ChunkText ''th'', ChunkText ''e'']" "''Hi''" None
        "7 / 10" None None Map.empty "streams [ChunkText ''th'', ChunkText ''e'']"
        "answers ''the''"
        "post_serving (content_json ''abc'' True)
           [content_line ''ab'' False, content_line ''c'' True]"
        llama3 "lines [content_line ''ab'' False, content_line ''c'' True]" sample_loads
        "body (Inr (content_json ''abc'' True))" "content_json ''abc'' True"]
    gs os
  show ?thesis
    by (simp add: serving_gemini(1,2) serving_ollama gd od nt nb)
qed


end
